theory Spec2Isabelle
  imports Main "HOL-Library.Multiset"
begin

section \<open>JavaScript primitives used by app.js\<close>

text \<open>
  Strings are character lists. The primitives below are the built-ins that
  \<^verbatim>\<open>app.js\<close> calls: \<^verbatim>\<open>String(n)\<close> on an integer, \<^verbatim>\<open>padStart(2, '0')\<close>,
  \<^verbatim>\<open>substring(a, b)\<close>, \<^verbatim>\<open>trim()\<close> and \<^verbatim>\<open>localeCompare\<close>.
\<close>

definition digit_char :: "nat \<Rightarrow> char" where
  "digit_char d = char_of (48 + d)"

fun digits :: "nat \<Rightarrow> string" where
  "digits n = (if n < 10 then [digit_char n] else digits (n div 10) @ [digit_char (n mod 10)])"

declare digits.simps [simp del]

text \<open>\<^verbatim>\<open>String(n)\<close> for an integer \<open>n\<close>: its decimal digits, with a minus sign when negative.\<close>

definition js_String :: "int \<Rightarrow> string" where
  "js_String n = (if n < 0 then CHR ''-'' # digits (nat (- n)) else digits (nat n))"

text \<open>
  Numbers are IEEE doubles. The ids and the counters of the application are the doubles
  that are integers, held here as \<open>int\<close>; a sum of two of them is the exact sum rounded
  to the nearest double, a tie going to the even significand of 53 bits. Up to
  \<open>2 ^ 53\<close> in absolute value every integer is a double and the sum is exact; beyond,
  \<^verbatim>\<open>n + 1\<close> and \<^verbatim>\<open>n++\<close> may leave \<open>n\<close> as it is.
\<close>

fun bit_length :: "nat \<Rightarrow> nat" where
  "bit_length n = (if n = 0 then 0 else Suc (bit_length (n div 2)))"

declare bit_length.simps [simp del]

definition round_to_double :: "int \<Rightarrow> int" where
  "round_to_double x =
     (let a = nat \<bar>x\<bar> in
      if bit_length a \<le> 53 then x
      else
        let q = 2 ^ (bit_length a - 53);
            r = a mod q;
            lo = a - r;
            m = (if 2 * r < q then lo
                 else if q < 2 * r then lo + q
                 else if even (lo div q) then lo else lo + q)
        in sgn x * int m)"

definition js_add :: "int \<Rightarrow> int \<Rightarrow> int" where
  "js_add a b = round_to_double (a + b)"

text \<open>\<^verbatim>\<open>Number.isSafeInteger\<close>: the integers that are below \<open>2 ^ 53\<close> in absolute value.\<close>

definition safe_integer :: "int \<Rightarrow> bool" where
  "safe_integer n = (- (2 ^ 53) < n \<and> n < 2 ^ 53)"

text \<open>\<^verbatim>\<open>s.padStart(n, c)\<close> with a one-character pad string.\<close>

definition padStart :: "nat \<Rightarrow> char \<Rightarrow> string \<Rightarrow> string" where
  "padStart n c s = replicate (n - length s) c @ s"

text \<open>\<^verbatim>\<open>s.substring(a, b)\<close> for \<open>a \<le> b\<close>; indices beyond the end are clamped, as in JavaScript.\<close>

definition substring :: "nat \<Rightarrow> nat \<Rightarrow> string \<Rightarrow> string" where
  "substring a b s = take (b - a) (drop a s)"

text \<open>
  The white space and line terminators that \<^verbatim>\<open>trim()\<close> strips, as far as they are
  single bytes: TAB, LF, VT, FF, CR, space and the no-break space.
\<close>

definition is_space :: "char \<Rightarrow> bool" where
  "is_space c = ((of_char c :: nat) \<in> {9, 10, 11, 12, 13, 32, 160})"

definition trim :: "string \<Rightarrow> string" where
  "trim s = rev (dropWhile is_space (rev (dropWhile is_space s)))"

text \<open>
  \<^verbatim>\<open>a.localeCompare(b)\<close>: negative, zero or positive. The strings compared in
  \<^verbatim>\<open>app.js\<close> are timestamps, made of ASCII digits, on which the collation is the
  order of the character codes, position by position.
\<close>

fun localeCompare :: "string \<Rightarrow> string \<Rightarrow> int" where
  "localeCompare [] [] = 0"
| "localeCompare [] (y # ys) = - 1"
| "localeCompare (x # xs) [] = 1"
| "localeCompare (x # xs) (y # ys) =
     (if (of_char x :: nat) < of_char y then - 1
      else if (of_char y :: nat) < of_char x then 1
      else localeCompare xs ys)"

text \<open>
  \<^verbatim>\<open>xs.sort(cmp)\<close>: the stable sort of ECMAScript, here by insertion. An element is
  placed before the first element it does not compare greater than, so elements that
  compare equal keep their order. Where the comparator is a consistent ordering, every
  stable sort returns this same list. Where it is not (a priority that is no key of the
  table makes the comparator of the tasks read NaN as 0), the standard leaves the order
  to the engine, which still returns the same elements: this list is then one of the
  orders possible, and nothing is stated below about the order in that case.
\<close>

fun insert_by :: "('a \<Rightarrow> 'a \<Rightarrow> int) \<Rightarrow> 'a \<Rightarrow> 'a list \<Rightarrow> 'a list" where
  "insert_by cmp x [] = [x]"
| "insert_by cmp x (y # ys) = (if cmp x y \<le> 0 then x # y # ys else y # insert_by cmp x ys)"

fun sort_js :: "('a \<Rightarrow> 'a \<Rightarrow> int) \<Rightarrow> 'a list \<Rightarrow> 'a list" where
  "sort_js cmp [] = []"
| "sort_js cmp (x # xs) = insert_by cmp x (sort_js cmp xs)"

text \<open>\<^verbatim>\<open>xs.find(p)\<close>: the first element satisfying \<open>p\<close>, or undefined.\<close>

fun find_js :: "('a \<Rightarrow> bool) \<Rightarrow> 'a list \<Rightarrow> 'a option" where
  "find_js p [] = None"
| "find_js p (x # xs) = (if p x then Some x else find_js p xs)"

section \<open>Timestamps\<close>

text \<open>What the getters of \<^verbatim>\<open>new Date()\<close> return: the reading of the local clock.\<close>

record js_date =
  getHours :: nat
  getMinutes :: nat
  getSeconds :: nat
  getDate :: nat
  getMonth :: nat
  getFullYear :: int

definition generateTimestamp :: "js_date \<Rightarrow> string" where
  "generateTimestamp now =
     (let hours = padStart 2 CHR ''0'' (js_String (int (getHours now)));
          minutes = padStart 2 CHR ''0'' (js_String (int (getMinutes now)));
          seconds = padStart 2 CHR ''0'' (js_String (int (getSeconds now)));
          day = padStart 2 CHR ''0'' (js_String (int (getDate now)));
          month = padStart 2 CHR ''0'' (js_String (int (getMonth now + 1)));
          year = js_String (getFullYear now)
      in hours @ minutes @ seconds @ day @ month @ year)"

definition formatTimestamp :: "string \<Rightarrow> string" where
  "formatTimestamp timestamp =
     (if timestamp = [] \<or> length timestamp \<noteq> 12 then ''Invalid timestamp''
      else
        let hours = substring 0 2 timestamp;
            minutes = substring 2 4 timestamp;
            seconds = substring 4 6 timestamp;
            day = substring 6 8 timestamp;
            month = substring 8 10 timestamp;
            year = substring 10 12 timestamp
        in day @ ''/'' @ month @ ''/20'' @ year @ '' at '' @ hours @ '':'' @ minutes @ '':'' @ seconds)"

text \<open>
  The readings a clock can give: the ranges of the \<^verbatim>\<open>Date\<close> getters, in a year of
  four digits.
\<close>

definition clock_reading :: "js_date \<Rightarrow> bool" where
  "clock_reading now =
     (getHours now < 24 \<and> getMinutes now < 60 \<and> getSeconds now < 60 \<and>
      1 \<le> getDate now \<and> getDate now \<le> 31 \<and> getMonth now < 12 \<and>
      1000 \<le> getFullYear now \<and> getFullYear now \<le> 9999)"

text \<open>Two decimal digits of a number below 100, and four of a number below 10000.\<close>

definition two_digits :: "nat \<Rightarrow> string" where
  "two_digits n = [digit_char (n div 10), digit_char (n mod 10)]"

definition four_digits :: "nat \<Rightarrow> string" where
  "four_digits n =
     [digit_char (n div 1000), digit_char (n div 100 mod 10),
      digit_char (n div 10 mod 10), digit_char (n mod 10)]"

definition seconds_of_day :: "js_date \<Rightarrow> nat" where
  "seconds_of_day now = getHours now * 3600 + getMinutes now * 60 + getSeconds now"

definition same_calendar_date :: "js_date \<Rightarrow> js_date \<Rightarrow> bool" where
  "same_calendar_date a b =
     (getDate a = getDate b \<and> getMonth a = getMonth b \<and> getFullYear a = getFullYear b)"

section \<open>The data model\<close>

text \<open>
  The objects held in \<^verbatim>\<open>this.logs\<close>, \<^verbatim>\<open>this.diaryEntries\<close> and \<^verbatim>\<open>this.tasks\<close>,
  with the fields of the server's JSON. A task made by \<^verbatim>\<open>addManualTask\<close> carries
  \<^verbatim>\<open>extractedAt\<close> and neither \<^verbatim>\<open>createdAt\<close> nor \<^verbatim>\<open>date\<close>; a task of the server
  the other way round; \<^verbatim>\<open>sourceLogId\<close> may be null.
\<close>

record log_entry =
  log_id :: int
  log_content :: string
  log_timestamp :: string
  log_wordCount :: int

record diary_entry =
  diary_id :: int
  diary_date :: string
  diary_content :: string
  diary_createdAt :: string
  diary_lastUpdated :: string
  diary_logIds :: "int list"

record task =
  task_id :: int
  task_description :: string
  task_completed :: bool
  task_priority :: string
  task_sourceLogId :: "int option"
  task_extractedAt :: "string option"
  task_createdAt :: "string option"
  task_date :: "string option"

subsection \<open>The server, seen from the client\<close>

text \<open>The requests that the modelled methods send with \<^verbatim>\<open>fetch\<close>.\<close>

datatype request =
    GetStatus
  | GetLogs
  | GetDiary
  | GetTasks
  | PostLogs string
  | DeleteLogs int
  | PostGenerateDiary string
  | PostGenerateTasks string

text \<open>
  What a \<^verbatim>\<open>fetch\<close> comes back with: the promise rejects (\<open>Rejected\<close>, with the
  error's message), or there is a response with its \<^verbatim>\<open>ok\<close> flag and what
  \<^verbatim>\<open>response.json()\<close> yields when it is read: the message of the parse error, or
  the parsed body.
\<close>

datatype 'a fetch_result =
    Rejected string
  | Response bool "string + 'a"

text \<open>The bodies, with the fields the client reads. An absent field is \<open>None\<close>.\<close>

record logs_data =
  ld_logs :: "log_entry list option"
  ld_nextId :: "int option"

record diary_data =
  dd_entries :: "diary_entry list option"
  dd_nextId :: "int option"

record tasks_data =
  td_tasks :: "task list option"
  td_nextId :: "int option"

record message_data =
  md_message :: "string option"

record log_result =
  lr_log :: log_entry

text \<open>The replies to one synthesis: to the POST, and to the three GETs of the reload.\<close>

record server_replies =
  generateReply :: "message_data fetch_result"
  logsReply :: "logs_data fetch_result"
  diaryReply :: "diary_data fetch_result"
  tasksReply :: "tasks_data fetch_result"

subsection \<open>The application state\<close>

text \<open>
  The elements of the page that the modelled methods read or that decide their
  control flow; \<open>None\<close> when \<^verbatim>\<open>getElementById\<close> finds no such element. Spinners,
  counters, disabled flags and the last-sync line are presentation only and left out.
\<close>

record page =
  logInput :: "string option"
  manualTaskInput :: "string option"
  manualTaskPriority :: "string option"
  autoDiary :: "bool option"
  autoTasks :: "bool option"
  updateDiaryBtnHidden :: "bool option"
  logsList :: "log_entry list option"
  tasksList :: "task list option"

text \<open>
  The fields of \<^verbatim>\<open>DailyLogApp\<close>, the page, and the trace of what the methods did to
  the outside: the calls of \<^verbatim>\<open>showToast\<close> (message and type) and of \<^verbatim>\<open>fetch\<close>.
\<close>

record app =
  logs :: "log_entry list"
  diaryEntries :: "diary_entry list"
  tasks :: "task list"
  nextLogId :: int
  nextTaskId :: int
  nextDiaryId :: int
  apiConnected :: bool
  doc :: page
  toasts :: "(string \<times> string) list"
  requests :: "request list"

definition constructor :: "page \<Rightarrow> app" where
  "constructor pg =
     \<lparr>logs = [], diaryEntries = [], tasks = [],
      nextLogId = 1, nextTaskId = 1, nextDiaryId = 1,
      apiConnected = False, doc = pg, toasts = [], requests = []\<rparr>"

definition showToast :: "string \<Rightarrow> string \<Rightarrow> app \<Rightarrow> app" where
  "showToast message type s = s\<lparr>toasts := toasts s @ [(message, type)]\<rparr>"

definition fetch :: "request \<Rightarrow> app \<Rightarrow> app" where
  "fetch req s = s\<lparr>requests := requests s @ [req]\<rparr>"

text \<open>\<^verbatim>\<open>xs || []\<close>, \<^verbatim>\<open>n || 1\<close> and \<^verbatim>\<open>m || dflt\<close>: the default replaces a falsy value.\<close>

definition list_or_empty :: "'a list option \<Rightarrow> 'a list" where
  "list_or_empty xs = (case xs of None \<Rightarrow> [] | Some ys \<Rightarrow> ys)"

definition nextId_or_1 :: "int option \<Rightarrow> int" where
  "nextId_or_1 n = (case n of None \<Rightarrow> 1 | Some k \<Rightarrow> if k = 0 then 1 else k)"

definition message_or :: "string option \<Rightarrow> string \<Rightarrow> string" where
  "message_or m dflt = (case m of None \<Rightarrow> dflt | Some t \<Rightarrow> if t = [] then dflt else t)"

text \<open>
  An assignment to a field of the object that \<^verbatim>\<open>find\<close> returned changes the first
  matching element of the array, in place.
\<close>

fun update_first :: "('a \<Rightarrow> bool) \<Rightarrow> ('a \<Rightarrow> 'a) \<Rightarrow> 'a list \<Rightarrow> 'a list" where
  "update_first p f [] = []"
| "update_first p f (x # xs) = (if p x then f x # xs else x # update_first p f xs)"

section \<open>Loading\<close>

text \<open>
  A block that may throw returns \<open>Inl (message, state)\<close>, the state being the one
  reached when the error was thrown (nothing is rolled back), or \<open>Inr state\<close>.
\<close>

definition checkApiConnection :: "unit fetch_result \<Rightarrow> app \<Rightarrow> app" where
  "checkApiConnection response s =
     (let s1 = fetch GetStatus s in
      case response of
        Rejected e \<Rightarrow> s1\<lparr>apiConnected := False\<rparr>
      | Response ok body \<Rightarrow>
          if ok then s1\<lparr>apiConnected := True\<rparr> else s1\<lparr>apiConnected := False\<rparr>)"

text \<open>One of the three parts of \<^verbatim>\<open>loadData\<close>: fetch, and assign if the response is ok.\<close>

definition load_part ::
  "request \<Rightarrow> 'a fetch_result \<Rightarrow> ('a \<Rightarrow> app \<Rightarrow> app) \<Rightarrow> app \<Rightarrow> (string \<times> app) + app" where
  "load_part req response assign s =
     (let s1 = fetch req s in
      case response of
        Rejected e \<Rightarrow> Inl (e, s1)
      | Response ok body \<Rightarrow>
          if ok then (case body of Inl e \<Rightarrow> Inl (e, s1) | Inr d \<Rightarrow> Inr (assign d s1))
          else Inr s1)"

definition loadData ::
  "logs_data fetch_result \<Rightarrow> diary_data fetch_result \<Rightarrow> tasks_data fetch_result \<Rightarrow> app \<Rightarrow> app" where
  "loadData logsResponse diaryResponse tasksResponse s =
     (let tried =
        (case load_part GetLogs logsResponse
                (\<lambda>logsData t. t\<lparr>logs := list_or_empty (ld_logs logsData),
                                 nextLogId := nextId_or_1 (ld_nextId logsData)\<rparr>) s of
           Inl thrown \<Rightarrow> Inl thrown
         | Inr s1 \<Rightarrow>
            (case load_part GetDiary diaryResponse
                    (\<lambda>diaryData t. t\<lparr>diaryEntries := list_or_empty (dd_entries diaryData),
                                      nextDiaryId := nextId_or_1 (dd_nextId diaryData)\<rparr>) s1 of
               Inl thrown \<Rightarrow> Inl thrown
             | Inr s2 \<Rightarrow>
                 load_part GetTasks tasksResponse
                    (\<lambda>tasksData t. t\<lparr>tasks := list_or_empty (td_tasks tasksData),
                                      nextTaskId := nextId_or_1 (td_nextId tasksData)\<rparr>) s2))
      in case tried of
           Inl (e, s') \<Rightarrow> showToast ''Failed to load data from server'' ''error'' s'
         | Inr s' \<Rightarrow> s')"

section \<open>Logs\<close>

text \<open>The comparator of \<^verbatim>\<open>renderLogs\<close>: newest first.\<close>

definition logs_compare :: "log_entry \<Rightarrow> log_entry \<Rightarrow> int" where
  "logs_compare a b = localeCompare (log_timestamp b) (log_timestamp a)"

definition renderLogs :: "app \<Rightarrow> app" where
  "renderLogs s =
     (case logsList (doc s) of
        None \<Rightarrow> s
      | Some shown \<Rightarrow>
          if logs s = [] then s\<lparr>doc := (doc s)\<lparr>logsList := Some []\<rparr>\<rparr>
          else s\<lparr>doc := (doc s)\<lparr>logsList := Some (sort_js logs_compare (logs s))\<rparr>\<rparr>)"

definition init ::
  "unit fetch_result \<Rightarrow> logs_data fetch_result \<Rightarrow> diary_data fetch_result \<Rightarrow>
   tasks_data fetch_result \<Rightarrow> page \<Rightarrow> app" where
  "init statusResponse logsResponse diaryResponse tasksResponse pg =
     renderLogs (loadData logsResponse diaryResponse tasksResponse
                   (checkApiConnection statusResponse (constructor pg)))"

text \<open>\<open>today\<close> is \<^verbatim>\<open>new Date().toISOString().split('T')[0]\<close>.\<close>

definition handleLogChange :: "string \<Rightarrow> app \<Rightarrow> app" where
  "handleLogChange today s =
     (case find_js (\<lambda>entry. diary_date entry = today) (diaryEntries s) of
        None \<Rightarrow> s
      | Some existingDiary \<Rightarrow>
          (case updateDiaryBtnHidden (doc s) of
             None \<Rightarrow> s
           | Some hidden \<Rightarrow> s\<lparr>doc := (doc s)\<lparr>updateDiaryBtnHidden := Some False\<rparr>\<rparr>))"

text \<open>\<open>answer\<close> is what \<^verbatim>\<open>prompt\<close> returns: \<open>None\<close> when the user cancels.\<close>

definition editLog :: "int \<Rightarrow> string option \<Rightarrow> string \<Rightarrow> app \<Rightarrow> app" where
  "editLog logId answer today s =
     (case find_js (\<lambda>l. log_id l = logId) (logs s) of
        None \<Rightarrow> s
      | Some log \<Rightarrow>
          (case answer of
             None \<Rightarrow> s
           | Some newContent \<Rightarrow>
               if trim newContent \<noteq> [] then
                 let s1 = s\<lparr>logs := update_first (\<lambda>l. log_id l = logId)
                                       (\<lambda>l. l\<lparr>log_content := trim newContent\<rparr>) (logs s)\<rparr>;
                     s2 = renderLogs s1;
                     s3 = showToast ''Log updated successfully!'' ''success'' s2
                 in handleLogChange today s3
               else s))"

text \<open>\<open>confirmed\<close> is what \<^verbatim>\<open>confirm\<close> returns.\<close>

definition deleteLog_try :: "int \<Rightarrow> unit fetch_result \<Rightarrow> string \<Rightarrow> app \<Rightarrow> (string \<times> app) + app" where
  "deleteLog_try logId response today s =
     (let sent =
        (if apiConnected s then
           (let s1 = fetch (DeleteLogs logId) s in
            case response of
              Rejected e \<Rightarrow> Inl (e, s1)
            | Response ok body \<Rightarrow>
                if \<not> ok then Inl (''Failed to delete log from server'', s1) else Inr s1)
         else Inr s)
      in case sent of
           Inl thrown \<Rightarrow> Inl thrown
         | Inr s1 \<Rightarrow>
             let s2 = s1\<lparr>logs := filter (\<lambda>l. log_id l \<noteq> logId) (logs s1)\<rparr>;
                 s3 = renderLogs s2;
                 s4 = showToast ''Log deleted successfully!'' ''success'' s3
             in Inr (handleLogChange today s4))"

definition deleteLog :: "int \<Rightarrow> bool \<Rightarrow> unit fetch_result \<Rightarrow> string \<Rightarrow> app \<Rightarrow> app" where
  "deleteLog logId confirmed response today s =
     (if confirmed then
        (case deleteLog_try logId response today s of
           Inl (e, s') \<Rightarrow> showToast (''Failed to delete log: '' @ e) ''error'' s'
         | Inr s' \<Rightarrow> s')
      else s)"

section \<open>Tasks\<close>

definition priorityOrder :: "string \<Rightarrow> int option" where
  "priorityOrder p =
     (if p = ''High'' then Some 3 else if p = ''Medium'' then Some 2
      else if p = ''Low'' then Some 1 else None)"

text \<open>
  The comparator of \<^verbatim>\<open>renderTasks\<close>. A priority that is no key of the table gives
  \<^verbatim>\<open>undefined\<close>, the difference is NaN, and \<^verbatim>\<open>sort\<close> reads NaN as 0.
\<close>

definition tasks_compare :: "task \<Rightarrow> task \<Rightarrow> int" where
  "tasks_compare a b =
     (if task_completed a \<noteq> task_completed b
      then of_bool (task_completed a) - of_bool (task_completed b)
      else (case (priorityOrder (task_priority b), priorityOrder (task_priority a)) of
              (Some pb, Some pa) \<Rightarrow> pb - pa
            | _ \<Rightarrow> 0))"

text \<open>
  With the filter \<^verbatim>\<open>'all'\<close>, \<^verbatim>\<open>filteredTasks\<close> is \<^verbatim>\<open>this.tasks\<close> itself, and
  \<^verbatim>\<open>sort\<close> reorders the collection in place; with the other two filters it is a
  fresh array.
\<close>

definition renderTasks :: "string \<Rightarrow> app \<Rightarrow> app" where
  "renderTasks filter' s =
     (case tasksList (doc s) of
        None \<Rightarrow> s
      | Some shown \<Rightarrow>
          let filteredTasks =
                (if filter' = ''completed'' then filter (\<lambda>task. task_completed task) (tasks s)
                 else if filter' = ''pending'' then filter (\<lambda>task. \<not> task_completed task) (tasks s)
                 else tasks s)
          in if filteredTasks = [] then s\<lparr>doc := (doc s)\<lparr>tasksList := Some []\<rparr>\<rparr>
             else
               let sorted = sort_js tasks_compare filteredTasks;
                   s1 = (if filter' = ''completed'' \<or> filter' = ''pending'' then s
                         else s\<lparr>tasks := sorted\<rparr>)
               in s1\<lparr>doc := (doc s1)\<lparr>tasksList := Some sorted\<rparr>\<rparr>)"

definition addManualTask :: "js_date \<Rightarrow> app \<Rightarrow> app" where
  "addManualTask now s =
     (case (manualTaskInput (doc s), manualTaskPriority (doc s)) of
        (Some v, Some priority) \<Rightarrow>
          let description = trim v in
          if description = [] then showToast ''Please enter a task description'' ''error'' s
          else
            let task = \<lparr>task_id = nextTaskId s, task_description = description,
                        task_completed = False, task_priority = priority,
                        task_sourceLogId = None,
                        task_extractedAt = Some (generateTimestamp now),
                        task_createdAt = None, task_date = None\<rparr>;
                s1 = s\<lparr>nextTaskId := js_add (nextTaskId s) 1\<rparr>;
                s2 = s1\<lparr>tasks := tasks s1 @ [task]\<rparr>;
                s3 = s2\<lparr>doc := (doc s2)\<lparr>manualTaskInput := Some []\<rparr>\<rparr>;
                s4 = renderTasks ''all'' s3
            in showToast ''Manual task added successfully!'' ''success'' s4
      | _ \<Rightarrow> s)"

section \<open>Synthesis\<close>

definition displayDiaryEntry :: "diary_entry \<Rightarrow> app \<Rightarrow> app" where
  "displayDiaryEntry diaryEntry s =
     (case updateDiaryBtnHidden (doc s) of
        None \<Rightarrow> s
      | Some hidden \<Rightarrow> s\<lparr>doc := (doc s)\<lparr>updateDiaryBtnHidden := Some True\<rparr>\<rparr>)"

text \<open>The \<^verbatim>\<open>try\<close> block of \<^verbatim>\<open>generateDiary\<close>.\<close>

definition generateDiary_try ::
  "bool \<Rightarrow> bool \<Rightarrow> string \<Rightarrow> server_replies \<Rightarrow> app \<Rightarrow> (string \<times> app) + app" where
  "generateDiary_try isRegenerate isIncremental today replies s =
     (let s1 = fetch (PostGenerateDiary today) s in
      case generateReply replies of
        Rejected e \<Rightarrow> Inl (e, s1)
      | Response ok body \<Rightarrow>
          if \<not> ok then
            (case body of
               Inl e \<Rightarrow> Inl (e, s1)
             | Inr errorData \<Rightarrow>
                 Inl (message_or (md_message errorData) ''Failed to generate diary'', s1))
          else
            (case body of
               Inl e \<Rightarrow> Inl (e, s1)
             | Inr result \<Rightarrow>
                 let s2 = loadData (logsReply replies) (diaryReply replies) (tasksReply replies) s1;
                     s3 = (case find_js (\<lambda>entry. diary_date entry = today) (diaryEntries s2) of
                             None \<Rightarrow> s2
                           | Some diaryEntry \<Rightarrow> displayDiaryEntry diaryEntry s2);
                     actionText = (if isRegenerate then ''regenerated''
                                   else if isIncremental then ''updated'' else ''generated'')
                 in Inr (showToast (''Diary entry '' @ actionText @ '' successfully!'')
                           ''success'' s3)))"

definition generateDiary :: "bool \<Rightarrow> bool \<Rightarrow> string \<Rightarrow> server_replies \<Rightarrow> app \<Rightarrow> app" where
  "generateDiary isRegenerate isIncremental today replies s =
     (if logs s = [] then
        showToast ''Add some logs first to generate a diary entry'' ''error'' s
      else if \<not> apiConnected s then showToast ''Backend server not available'' ''error'' s
      else
        (case generateDiary_try isRegenerate isIncremental today replies s of
           Inl (e, s') \<Rightarrow> showToast (''Failed to generate diary entry: '' @ e) ''error'' s'
         | Inr s' \<Rightarrow> s'))"

text \<open>The \<^verbatim>\<open>try\<close> block of \<^verbatim>\<open>extractTasks\<close>.\<close>

definition extractTasks_try ::
  "bool \<Rightarrow> string \<Rightarrow> server_replies \<Rightarrow> app \<Rightarrow> (string \<times> app) + app" where
  "extractTasks_try onlyNew today replies s =
     (let s1 = fetch (PostGenerateTasks today) s in
      case generateReply replies of
        Rejected e \<Rightarrow> Inl (e, s1)
      | Response ok body \<Rightarrow>
          if \<not> ok then
            (case body of
               Inl e \<Rightarrow> Inl (e, s1)
             | Inr errorData \<Rightarrow>
                 Inl (message_or (md_message errorData) ''Failed to generate tasks'', s1))
          else
            (case body of
               Inl e \<Rightarrow> Inl (e, s1)
             | Inr result \<Rightarrow>
                 let s2 = loadData (logsReply replies) (diaryReply replies) (tasksReply replies) s1;
                     s3 = renderTasks ''all'' s2
                 in Inr (showToast (message_or (md_message result) ''Tasks extracted successfully!'')
                           ''success'' s3)))"

definition extractTasks :: "bool \<Rightarrow> string \<Rightarrow> server_replies \<Rightarrow> app \<Rightarrow> app" where
  "extractTasks onlyNew today replies s =
     (if logs s = [] then showToast ''Add some logs first to extract tasks'' ''error'' s
      else if \<not> apiConnected s then showToast ''Backend server not available'' ''error'' s
      else
        (case extractTasks_try onlyNew today replies s of
           Inl (e, s') \<Rightarrow> showToast (''Failed to extract tasks: '' @ e) ''error'' s'
         | Inr s' \<Rightarrow> s'))"

section \<open>Adding a log\<close>

text \<open>
  The \<^verbatim>\<open>try\<close> block of \<^verbatim>\<open>addLog\<close>. \<open>diaryReplies\<close> and \<open>taskReplies\<close> answer the
  synthesis and the extraction that follow when the two check boxes are ticked.
\<close>

definition addLog_try ::
  "string \<Rightarrow> log_result fetch_result \<Rightarrow> string \<Rightarrow> server_replies \<Rightarrow> server_replies \<Rightarrow> app \<Rightarrow>
   (string \<times> app) + app" where
  "addLog_try content response today diaryReplies taskReplies s =
     (let s1 = fetch (PostLogs content) s in
      case response of
        Rejected e \<Rightarrow> Inl (e, s1)
      | Response ok body \<Rightarrow>
          if \<not> ok then Inl (''Failed to save log'', s1)
          else
            (case body of
               Inl e \<Rightarrow> Inl (e, s1)
             | Inr result \<Rightarrow>
                 let s2 = s1\<lparr>logs := logs s1 @ [lr_log result]\<rparr>;
                     s3 = s2\<lparr>nextLogId := js_add (log_id (lr_log result)) 1\<rparr>;
                     s4 = s3\<lparr>doc := (doc s3)\<lparr>logInput := Some []\<rparr>\<rparr>;
                     s5 = renderLogs s4;
                     s6 = showToast ''Log entry added successfully!'' ''success'' s5;
                     s7 = (if autoDiary (doc s6) = Some True
                           then generateDiary False True today diaryReplies s6 else s6);
                     s8 = (if autoTasks (doc s7) = Some True
                           then extractTasks True today taskReplies s7 else s7)
                 in Inr s8))"

definition addLog ::
  "log_result fetch_result \<Rightarrow> string \<Rightarrow> server_replies \<Rightarrow> server_replies \<Rightarrow> app \<Rightarrow> app" where
  "addLog response today diaryReplies taskReplies s =
     (case logInput (doc s) of
        None \<Rightarrow> s
      | Some v \<Rightarrow>
          let content = trim v in
          if content = [] then showToast ''Please enter some content for your log'' ''error'' s
          else
            (case addLog_try content response today diaryReplies taskReplies s of
               Inl (e, s') \<Rightarrow> showToast ''Failed to add log entry'' ''error'' s'
             | Inr s' \<Rightarrow> s'))"

section \<open>Notions used to state the properties\<close>

text \<open>
  The collections and the counters of the application: what a method must leave alone
  when it is said to commit nothing.
\<close>

definition collections ::
  "app \<Rightarrow> log_entry list \<times> diary_entry list \<times> task list \<times> int \<times> int \<times> int" where
  "collections s = (logs s, diaryEntries s, tasks s, nextLogId s, nextDiaryId s, nextTaskId s)"

text \<open>
  Modelled from the spec: the calendar date of a log, which no function of the client
  computes. The spec gives the timestamp as \<^verbatim>\<open>HHMMSSDDMMYYYY\<close> and lists the logs of a
  date as those whose timestamp falls on it; the date is written as \<^verbatim>\<open>today\<close> is,
  \<^verbatim>\<open>YYYY-MM-DD\<close>.
\<close>

definition timestamp_date :: "string \<Rightarrow> string" where
  "timestamp_date ts = substring 10 14 ts @ ''-'' @ substring 8 10 ts @ ''-'' @ substring 6 8 ts"

definition logs_for_date :: "string \<Rightarrow> app \<Rightarrow> log_entry list" where
  "logs_for_date date s = filter (\<lambda>l. timestamp_date (log_timestamp l) = date) (logs s)"

text \<open>The tasks of the data model: their priority is High, Medium or Low.\<close>

definition known_priority :: "task \<Rightarrow> bool" where
  "known_priority t = (task_priority t = ''High'' \<or> task_priority t = ''Medium'' \<or> task_priority t = ''Low'')"

text \<open>
  The order asked of the rendering, on the names of the priorities and not on the
  numbers of the code's table: \<open>a\<close> may stand before \<open>b\<close> when \<open>a\<close> is not a completed
  task before an incomplete one and, the two being of the same completion, only a High
  stands before a High and no Low stands before a Medium.
\<close>

definition rendered_before :: "task \<Rightarrow> task \<Rightarrow> bool" where
  "rendered_before a b =
     ((task_completed a \<longrightarrow> task_completed b) \<and>
      (task_completed a = task_completed b \<longrightarrow>
         (task_priority b = ''High'' \<longrightarrow> task_priority a = ''High'') \<and>
         (task_priority b = ''Medium'' \<longrightarrow> task_priority a \<noteq> ''Low'')))"

text \<open>The ids of the tasks held are all below the counter.\<close>

definition ids_below_counter :: "app \<Rightarrow> bool" where
  "ids_below_counter s = list_all (\<lambda>t. task_id t < nextTaskId s) (tasks s)"

text \<open>The tasks that a filter of \<^verbatim>\<open>renderTasks\<close> selects.\<close>

definition selected_tasks :: "string \<Rightarrow> task list \<Rightarrow> task list" where
  "selected_tasks filter' ts =
     (if filter' = ''completed'' then filter (\<lambda>task. task_completed task) ts
      else if filter' = ''pending'' then filter (\<lambda>task. \<not> task_completed task) ts
      else ts)"

text \<open>The position of the first element satisfying \<open>p\<close> (the length, if there is none).\<close>

fun first_index :: "('a \<Rightarrow> bool) \<Rightarrow> 'a list \<Rightarrow> nat" where
  "first_index p [] = 0"
| "first_index p (x # xs) = (if p x then 0 else Suc (first_index p xs))"

text \<open>
  A reply from which the client reads no value for a field: the request failed, the
  response was not ok or not JSON, or the body has no such field.
\<close>

definition lacks :: "('a \<Rightarrow> 'b option) \<Rightarrow> 'a fetch_result \<Rightarrow> bool" where
  "lacks field r =
     (case r of
        Rejected e \<Rightarrow> True
      | Response ok body \<Rightarrow> \<not> ok \<or> (case body of Inl e \<Rightarrow> True | Inr d \<Rightarrow> field d = None))"

text \<open>
  The oracle's invocation fails: the POST is rejected, or its response is not ok, or
  its body cannot be read.
\<close>

definition oracle_failed :: "message_data fetch_result \<Rightarrow> bool" where
  "oracle_failed r =
     (case r of
        Rejected e \<Rightarrow> True
      | Response ok body \<Rightarrow> \<not> ok \<or> (case body of Inl e \<Rightarrow> True | Inr d \<Rightarrow> False))"

text \<open>The state of a first run: nothing in the collections, the counters at 1.\<close>

definition fresh :: "app \<Rightarrow> bool" where
  "fresh s = (collections s = ([], [], [], 1, 1, 1))"

text \<open>
  Two devices of the proofs about \<^verbatim>\<open>renderTasks\<close>: the number that the table
  \<^verbatim>\<open>priorityOrder\<close> of the code gives to the priority of a task, and the key by which
  the comparator of the code then orders the tasks of the data model.
\<close>

definition priority_rank :: "task \<Rightarrow> int" where
  "priority_rank t = (case priorityOrder (task_priority t) of Some k \<Rightarrow> k | None \<Rightarrow> 0)"

definition task_key :: "task \<Rightarrow> int" where
  "task_key t = (if task_completed t then 4 else 0) - priority_rank t"

section \<open>Sample inputs\<close>

definition morning :: js_date where
  "morning = \<lparr>getHours = 9, getMinutes = 5, getSeconds = 3,
              getDate = 1, getMonth = 9, getFullYear = 2025\<rparr>"

definition afternoon :: js_date where
  "afternoon = \<lparr>getHours = 14, getMinutes = 30, getSeconds = 0,
                getDate = 1, getMonth = 9, getFullYear = 2025\<rparr>"

definition sample_page :: page where
  "sample_page =
     \<lparr>logInput = Some ''   '', manualTaskInput = Some '' Buy milk '',
      manualTaskPriority = Some ''High'', autoDiary = Some False, autoTasks = Some False,
      updateDiaryBtnHidden = Some True, logsList = Some [], tasksList = Some []\<rparr>"

definition sample_log :: log_entry where
  "sample_log =
     \<lparr>log_id = 1, log_content = ''Need to call the dentist tomorrow'',
      log_timestamp = ''09050301102025'', log_wordCount = 6\<rparr>"

definition second_log :: log_entry where
  "second_log =
     \<lparr>log_id = 2, log_content = ''Lunch with the team'',
      log_timestamp = ''14300001102025'', log_wordCount = 4\<rparr>"

definition sample_diary :: diary_entry where
  "sample_diary =
     \<lparr>diary_id = 1, diary_date = ''2025-10-01'', diary_content = ''A quiet morning.'',
      diary_createdAt = ''2025-10-01T10:00:00.000Z'',
      diary_lastUpdated = ''2025-10-01T10:00:00.000Z'', diary_logIds = [1]\<rparr>"

definition sample_task :: "int \<Rightarrow> string \<Rightarrow> bool \<Rightarrow> string \<Rightarrow> task" where
  "sample_task i d c p =
     \<lparr>task_id = i, task_description = d, task_completed = c, task_priority = p,
      task_sourceLogId = Some 1, task_extractedAt = None,
      task_createdAt = Some ''2025-10-01T10:00:00.000Z'', task_date = Some ''2025-10-01''\<rparr>"

definition sample_tasks :: "task list" where
  "sample_tasks =
     [sample_task 1 ''Water the plants'' True ''Low'',
      sample_task 4 ''Sort the photos'' False ''Low'',
      sample_task 2 ''Call the dentist'' False ''Medium'',
      sample_task 5 ''File the report'' True ''High'',
      sample_task 3 ''Pay the rent'' False ''High'']"

definition sample_app :: app where
  "sample_app =
     \<lparr>logs = [sample_log, second_log], diaryEntries = [sample_diary], tasks = sample_tasks,
      nextLogId = 3, nextTaskId = 6, nextDiaryId = 2,
      apiConnected = True, doc = sample_page, toasts = [], requests = []\<rparr>"

text \<open>
  The replies of a first run: a store with no fields yet, a missing one (a 404 whose
  body is a page of HTML), and a request that fails.
\<close>

definition first_run_logs :: "logs_data fetch_result" where
  "first_run_logs = Response True (Inr \<lparr>ld_logs = None, ld_nextId = None\<rparr>)"

definition first_run_diary :: "diary_data fetch_result" where
  "first_run_diary = Response False (Inl ''Unexpected token < in JSON at position 0'')"

definition first_run_tasks :: "tasks_data fetch_result" where
  "first_run_tasks = Rejected ''Failed to fetch''"

text \<open>The server is down: every request fails.\<close>

definition server_down :: server_replies where
  "server_down =
     \<lparr>generateReply = Rejected ''Failed to fetch'', logsReply = Rejected ''Failed to fetch'',
      diaryReply = Rejected ''Failed to fetch'', tasksReply = Rejected ''Failed to fetch''\<rparr>"

section \<open>Lemmas on the string primitives\<close>

lemma digit_char_0: "digit_char 0 = CHR ''0''"
  unfolding digit_char_def by code_simp

lemma of_char_digit_char: "d < 10 \<Longrightarrow> (of_char (digit_char d) :: nat) = 48 + d"
  by (simp add: digit_char_def)

lemma digits_lt_10: "n < 10 \<Longrightarrow> digits n = [digit_char n]"
  by (simp add: digits.simps)

lemma digits_lt_100: "10 \<le> n \<Longrightarrow> n < 100 \<Longrightarrow> digits n = two_digits n"
  by (subst digits.simps) (simp add: digits_lt_10 two_digits_def)

lemma digits_lt_1000:
  "100 \<le> n \<Longrightarrow> n < 1000 \<Longrightarrow>
   digits n = [digit_char (n div 100), digit_char (n div 10 mod 10), digit_char (n mod 10)]"
  by (subst digits.simps) (simp add: digits_lt_100 two_digits_def div_mult2_eq [symmetric])

lemma digits_lt_10000: "1000 \<le> n \<Longrightarrow> n < 10000 \<Longrightarrow> digits n = four_digits n"
  by (subst digits.simps) (simp add: digits_lt_1000 four_digits_def div_mult2_eq [symmetric])

lemma pad_two_digits: "n < 100 \<Longrightarrow> padStart 2 CHR ''0'' (js_String (int n)) = two_digits n"
proof (cases "n < 10")
  case True
  then show ?thesis
    by (simp add: padStart_def js_String_def digits_lt_10 two_digits_def digit_char_0)
next
  case False
  assume "n < 100"
  with False show ?thesis
    by (simp add: padStart_def js_String_def digits_lt_100) (simp add: two_digits_def)
qed

lemma year_four_digits:
  "1000 \<le> y \<Longrightarrow> y \<le> 9999 \<Longrightarrow> js_String y = four_digits (nat y)"
  by (simp add: js_String_def digits_lt_10000)

lemma generateTimestamp_fields:
  assumes "clock_reading now"
  shows "generateTimestamp now =
           two_digits (getHours now) @ two_digits (getMinutes now) @ two_digits (getSeconds now) @
           two_digits (getDate now) @ two_digits (getMonth now + 1) @
           four_digits (nat (getFullYear now))"
proof -
  have h: "padStart 2 CHR ''0'' (js_String (int (getHours now))) = two_digits (getHours now)"
    using assms by (intro pad_two_digits) (simp add: clock_reading_def)
  have m: "padStart 2 CHR ''0'' (js_String (int (getMinutes now))) = two_digits (getMinutes now)"
    using assms by (intro pad_two_digits) (simp add: clock_reading_def)
  have s: "padStart 2 CHR ''0'' (js_String (int (getSeconds now))) = two_digits (getSeconds now)"
    using assms by (intro pad_two_digits) (simp add: clock_reading_def)
  have d: "padStart 2 CHR ''0'' (js_String (int (getDate now))) = two_digits (getDate now)"
    using assms by (intro pad_two_digits) (simp add: clock_reading_def)
  have mo: "padStart 2 CHR ''0'' (js_String (int (getMonth now + 1))) = two_digits (getMonth now + 1)"
    using assms by (intro pad_two_digits) (simp add: clock_reading_def)
  have y: "js_String (getFullYear now) = four_digits (nat (getFullYear now))"
    using assms by (intro year_four_digits) (simp_all add: clock_reading_def)
  show ?thesis
    unfolding generateTimestamp_def Let_def h m s d mo y ..
qed

lemma localeCompare_same: "localeCompare s s = 0"
  by (induction s) simp_all

lemma localeCompare_two_digits:
  assumes "a < 100" "b < 100"
  shows "localeCompare (two_digits a @ r) (two_digits b @ t) =
           (if a < b then - 1 else if b < a then 1 else localeCompare r t)"
proof -
  have da: "a div 10 < 10" "a mod 10 < 10" and db: "b div 10 < 10" "b mod 10 < 10"
    using assms by simp_all
  have split_a: "a = 10 * (a div 10) + a mod 10" and split_b: "b = 10 * (b div 10) + b mod 10"
    by simp_all
  consider (lt1) "a div 10 < b div 10" | (gt1) "b div 10 < a div 10"
    | (eq_lt) "a div 10 = b div 10" "a mod 10 < b mod 10"
    | (eq_gt) "a div 10 = b div 10" "b mod 10 < a mod 10"
    | (eq) "a div 10 = b div 10" "a mod 10 = b mod 10"
    by linarith
  then show ?thesis
  proof cases
    case lt1
    then have "a < b" using split_a split_b da db by linarith
    with lt1 show ?thesis by (simp add: two_digits_def of_char_digit_char da db)
  next
    case gt1
    then have "b < a" using split_a split_b da db by linarith
    with gt1 show ?thesis by (simp add: two_digits_def of_char_digit_char da db)
  next
    case eq_lt
    then have "a < b" using split_a split_b by linarith
    with eq_lt show ?thesis by (simp add: two_digits_def of_char_digit_char da db)
  next
    case eq_gt
    then have "b < a" using split_a split_b by linarith
    with eq_gt show ?thesis by (simp add: two_digits_def of_char_digit_char da db)
  next
    case eq
    then have "a = b" using split_a split_b by linarith
    then show ?thesis by (simp add: two_digits_def)
  qed
qed

lemma length_two_digits: "length (two_digits n) = 2"
  by (simp add: two_digits_def)

lemma length_four_digits: "length (four_digits n) = 4"
  by (simp add: four_digits_def)

lemma generateTimestamp_length: "clock_reading now \<Longrightarrow> length (generateTimestamp now) = 14"
  by (simp add: generateTimestamp_fields length_two_digits length_four_digits)

lemma seconds_order:
  assumes "m < 60" "s < 60" "m' < 60" "s' < 60"
  shows "(h * 3600 + m * 60 + s < h' * 3600 + m' * 60 + s') =
         (h < h' \<or> h = h' \<and> (m < m' \<or> m = m' \<and> (s::nat) < s'))"
  using assms by auto

lemma timestamps_compare:
  assumes "clock_reading a" "clock_reading b" "same_calendar_date a b"
  shows "localeCompare (generateTimestamp b) (generateTimestamp a) =
           (if seconds_of_day b < seconds_of_day a then - 1
            else if seconds_of_day a < seconds_of_day b then 1 else 0)"
proof -
  have ra: "getHours a < 100" "getMinutes a < 100" "getSeconds a < 100"
    and rb: "getHours b < 100" "getMinutes b < 100" "getSeconds b < 100"
    using assms by (simp_all add: clock_reading_def)
  have m: "getMinutes a < 60" "getSeconds a < 60" "getMinutes b < 60" "getSeconds b < 60"
    using assms by (simp_all add: clock_reading_def)
  have same: "getDate a = getDate b" "getMonth a = getMonth b" "getFullYear a = getFullYear b"
    using assms by (simp_all add: same_calendar_date_def)
  show ?thesis
    unfolding generateTimestamp_fields [OF assms(1)] generateTimestamp_fields [OF assms(2)]
      seconds_of_day_def seconds_order [OF m(3,4,1,2)] seconds_order [OF m(1,2,3,4)]
    using ra rb
    by (simp add: localeCompare_two_digits same localeCompare_same)
qed

lemma clock_reading_morning: "clock_reading morning"
  by (simp add: clock_reading_def morning_def)

lemma clock_reading_afternoon: "clock_reading afternoon"
  by (simp add: clock_reading_def afternoon_def)

section \<open>Lemmas on the numbers\<close>

lemma bit_length_le: "(bit_length n \<le> k) = (n < 2 ^ k)"
proof (induction n arbitrary: k rule: bit_length.induct)
  case (1 n)
  show ?case
  proof (cases "n = 0")
    case True
    then show ?thesis by (simp add: bit_length.simps)
  next
    case False
    show ?thesis
    proof (cases k)
      case 0
      with False show ?thesis by (simp add: bit_length.simps)
    next
      case (Suc j)
      have "(bit_length n \<le> Suc j) = (bit_length (n div 2) \<le> j)"
        using False by (subst bit_length.simps) simp
      also have "\<dots> = (n div 2 < 2 ^ j)" using 1 [OF False] .
      also have "\<dots> = (n < 2 ^ Suc j)" by auto
      finally show ?thesis using Suc by simp
    qed
  qed
qed

lemma bit_length_eq: "n \<noteq> 0 \<Longrightarrow> (bit_length n = Suc k) = (2 ^ k \<le> n \<and> n < 2 ^ Suc k)"
proof -
  assume "n \<noteq> 0"
  then have p: "bit_length n \<noteq> 0" by (subst bit_length.simps) simp
  have "(bit_length n = Suc k) = (bit_length n \<le> Suc k \<and> \<not> bit_length n \<le> k)"
    by auto
  then show ?thesis unfolding bit_length_le by auto
qed

lemma bit_length_2_53: "bit_length 9007199254740992 = 54"
proof -
  have "bit_length 9007199254740992 = Suc 53"
    by (subst bit_length_eq) simp_all
  then show ?thesis by simp
qed

text \<open>Up to \<open>2 ^ 53\<close> in absolute value, nothing is rounded.\<close>

lemma round_to_double_exact:
  assumes "\<bar>x\<bar> \<le> 2 ^ 53"
  shows "round_to_double x = x"
proof (cases "\<bar>x\<bar> < 2 ^ 53")
  case True
  then have "nat \<bar>x\<bar> < 2 ^ 53" by (simp add: nat_less_iff)
  then show ?thesis by (simp add: round_to_double_def bit_length_le)
next
  case False
  with assms have a: "nat \<bar>x\<bar> = 9007199254740992" by (simp add: nat_eq_iff)
  have "sgn x * 9007199254740992 = x" using a False assms by (cases "x < 0") (auto simp: sgn_if)
  then show ?thesis
    by (simp add: round_to_double_def a bit_length_2_53 Let_def)
qed

lemma js_add_safe:
  assumes "safe_integer n"
  shows "js_add n 1 = n + 1"
proof -
  have "\<bar>n + 1\<bar> \<le> 2 ^ 53" using assms by (simp add: safe_integer_def abs_le_iff)
  then show ?thesis unfolding js_add_def by (rule round_to_double_exact)
qed

text \<open>At \<open>2 ^ 53\<close> a counter no longer advances.\<close>

lemma js_add_stuck: "js_add 9007199254740992 1 = 9007199254740992"
proof -
  have b: "bit_length 9007199254740993 = Suc 53"
    by (subst bit_length_eq) simp_all
  show ?thesis
    by (simp add: js_add_def round_to_double_def b Let_def)
qed

section \<open>Lemmas on sorting\<close>

lemma mset_insert_by: "mset (insert_by cmp x xs) = add_mset x (mset xs)"
  by (induction xs) simp_all

lemma mset_sort_js: "mset (sort_js cmp xs) = mset xs"
  by (induction xs) (simp_all add: mset_insert_by)

lemma set_insert_by: "set (insert_by cmp x xs) = insert x (set xs)"
  by (induction xs) auto

lemma set_sort_js: "set (sort_js cmp xs) = set xs"
  by (induction xs) (simp_all add: set_insert_by)

text \<open>
  Where the comparator agrees with the order of an integer key, inserting keeps the
  keys sorted.
\<close>

lemma sorted_insert_by_key:
  assumes key: "\<And>a b. a \<in> A \<Longrightarrow> b \<in> A \<Longrightarrow> (cmp a b \<le> 0) = (key a \<le> (key b :: int))"
    and "x \<in> A" "set xs \<subseteq> A" "sorted (map key xs)"
  shows "sorted (map key (insert_by cmp x xs))"
  using assms(3,4)
proof (induction xs)
  case Nil
  then show ?case by simp
next
  case (Cons y ys)
  have y: "y \<in> A" and ys: "set ys \<subseteq> A" using Cons.prems by simp_all
  show ?case
  proof (cases "cmp x y \<le> 0")
    case True
    then have "key x \<le> key y" using key [OF \<open>x \<in> A\<close> y] by simp
    with True Cons.prems show ?thesis by fastforce
  next
    case False
    then have "key y \<le> key x" using key [OF \<open>x \<in> A\<close> y] by simp
    moreover have "sorted (map key (insert_by cmp x ys))"
      using Cons.IH ys Cons.prems by simp
    ultimately show ?thesis
      using False Cons.prems by (auto simp: set_insert_by)
  qed
qed

lemma sorted_sort_js_key:
  assumes key: "\<And>a b. a \<in> A \<Longrightarrow> b \<in> A \<Longrightarrow> (cmp a b \<le> 0) = (key a \<le> (key b :: int))"
    and "set xs \<subseteq> A"
  shows "sorted (map key (sort_js cmp xs))"
  using assms(2)
proof (induction xs)
  case Nil
  then show ?case by simp
next
  case (Cons x xs)
  then have "sorted (map key (sort_js cmp xs))" by simp
  moreover have "x \<in> A" "set (sort_js cmp xs) \<subseteq> A"
    using Cons.prems by (simp_all add: set_sort_js)
  ultimately show ?case
    using sorted_insert_by_key [of A cmp key x "sort_js cmp xs"] key by simp
qed

lemma priority_rank_known:
  "known_priority t \<Longrightarrow>
   priorityOrder (task_priority t) = Some (priority_rank t) \<and>
   1 \<le> priority_rank t \<and> priority_rank t \<le> 3"
  by (auto simp: known_priority_def priority_rank_def priorityOrder_def)

lemma tasks_compare_key:
  assumes "known_priority a" "known_priority b"
  shows "(tasks_compare a b \<le> 0) = (task_key a \<le> task_key b)"
  using priority_rank_known [OF assms(1)] priority_rank_known [OF assms(2)]
  by (auto simp: tasks_compare_def task_key_def)

lemma priority_rank_names:
  "known_priority t \<Longrightarrow>
   (task_priority t = ''High'') = (priority_rank t = 3) \<and>
   (task_priority t = ''Medium'') = (priority_rank t = 2) \<and>
   (task_priority t = ''Low'') = (priority_rank t = 1)"
  by (auto simp: known_priority_def priority_rank_def priorityOrder_def)

lemma key_rendered_before:
  assumes "known_priority a" "known_priority b" "task_key a \<le> task_key b"
  shows "rendered_before a b"
  using priority_rank_known [OF assms(1)] priority_rank_known [OF assms(2)]
    priority_rank_names [OF assms(1)] priority_rank_names [OF assms(2)] assms(3)
  by (auto simp: rendered_before_def task_key_def split: if_splits)

lemma sort_js_tasks_rendered:
  assumes "\<forall>t \<in> set ts. known_priority t"
  shows "sorted_wrt rendered_before (sort_js tasks_compare ts)"
proof -
  have "sorted (map task_key (sort_js tasks_compare ts))"
    using assms
    by (intro sorted_sort_js_key [where A = "{t. known_priority t}"])
       (auto simp: tasks_compare_key)
  then have "sorted_wrt (\<lambda>a b. task_key a \<le> task_key b) (sort_js tasks_compare ts)"
    by (simp add: sorted_map)
  moreover have "\<And>a b. a \<in> set (sort_js tasks_compare ts) \<Longrightarrow>
      b \<in> set (sort_js tasks_compare ts) \<Longrightarrow> task_key a \<le> task_key b \<Longrightarrow> rendered_before a b"
    using assms by (simp add: set_sort_js key_rendered_before)
  ultimately show ?thesis
    by (rule sorted_wrt_mono_rel [rotated])
qed

lemma selected_known:
  "\<forall>t \<in> set ts. known_priority t \<Longrightarrow> \<forall>t \<in> set (selected_tasks f ts). known_priority t"
  by (auto simp: selected_tasks_def)

lemma sample_tasks_known: "list_all known_priority (tasks sample_app)"
  by (simp add: sample_app_def sample_tasks_def sample_task_def known_priority_def)

section \<open>Lemmas on the methods\<close>

lemma update_first_found:
  assumes "find_js p xs = Some x"
  shows "first_index p xs < length xs \<and> xs ! first_index p xs = x \<and>
         update_first p f xs = xs[first_index p xs := f x]"
  using assms by (induction xs) (auto split: if_splits)

lemma map_update_same:
  "k < length xs \<Longrightarrow> f y = f (xs ! k) \<Longrightarrow> map f (xs[k := y]) = map f xs"
  by (simp add: map_update list_update_same_conv)

lemma logs_renderLogs: "logs (renderLogs s) = logs s"
  by (simp add: renderLogs_def split: option.splits)

lemma diaryEntries_renderLogs: "diaryEntries (renderLogs s) = diaryEntries s"
  by (simp add: renderLogs_def split: option.splits)

lemma collections_renderLogs: "collections (renderLogs s) = collections s"
  by (simp add: renderLogs_def collections_def split: option.splits)

lemma handleLogChange_eq:
  "handleLogChange today s =
     s\<lparr>doc := (doc s)\<lparr>updateDiaryBtnHidden :=
          (if find_js (\<lambda>entry. diary_date entry = today) (diaryEntries s) = None
           then updateDiaryBtnHidden (doc s)
           else map_option (\<lambda>hidden. False) (updateDiaryBtnHidden (doc s)))\<rparr>\<rparr>"
  by (simp add: handleLogChange_def split: option.splits)

lemma logs_handleLogChange: "logs (handleLogChange today s) = logs s"
  by (simp add: handleLogChange_def split: option.splits)

lemma diaryEntries_handleLogChange: "diaryEntries (handleLogChange today s) = diaryEntries s"
  by (simp add: handleLogChange_def split: option.splits)

lemma diaryEntries_editLog: "diaryEntries (editLog logId answer today s) = diaryEntries s"
  by (simp add: editLog_def Let_def diaryEntries_handleLogChange diaryEntries_renderLogs
      showToast_def split: option.splits)

lemma diaryEntries_deleteLog:
  "diaryEntries (deleteLog logId confirmed response today s) = diaryEntries s"
  by (simp add: deleteLog_def deleteLog_try_def Let_def diaryEntries_handleLogChange
      diaryEntries_renderLogs showToast_def fetch_def split: fetch_result.splits)

lemma requests_renderTasks: "requests (renderTasks f s) = requests s"
  by (simp add: renderTasks_def Let_def split: option.splits)

lemma nextTaskId_renderTasks: "nextTaskId (renderTasks f s) = nextTaskId s"
  by (simp add: renderTasks_def Let_def split: option.splits)

lemma tasks_renderTasks_all:
  "tasks (renderTasks ''all'' s) =
     (if tasksList (doc s) = None then tasks s else sort_js tasks_compare (tasks s))"
  by (auto simp: renderTasks_def Let_def split: option.splits)

text \<open>An error thrown in the \<^verbatim>\<open>try\<close> block of a synthesis is thrown right after the POST.\<close>

lemma generateDiary_try_thrown:
  assumes "generateDiary_try isRegenerate isIncremental today replies s = Inl (e, t)"
  shows "t = fetch (PostGenerateDiary today) s"
  using assms
  by (auto simp: generateDiary_try_def Let_def split: fetch_result.splits sum.splits if_splits)

lemma extractTasks_try_thrown:
  assumes "extractTasks_try onlyNew today replies s = Inl (e, t)"
  shows "t = fetch (PostGenerateTasks today) s"
  using assms
  by (auto simp: extractTasks_try_def Let_def split: fetch_result.splits sum.splits if_splits)

lemma generateDiary_try_throws_iff:
  "(\<exists>e t. generateDiary_try isRegenerate isIncremental today replies s = Inl (e, t)) =
   oracle_failed (generateReply replies)"
  by (cases "generateReply replies")
     (auto simp: generateDiary_try_def oracle_failed_def Let_def split: sum.splits)

lemma extractTasks_try_throws_iff:
  "(\<exists>e t. extractTasks_try onlyNew today replies s = Inl (e, t)) =
   oracle_failed (generateReply replies)"
  by (cases "generateReply replies")
     (auto simp: extractTasks_try_def oracle_failed_def Let_def split: sum.splits)

text \<open>The four shapes of a reply, and what one part of \<^verbatim>\<open>loadData\<close> does with each.\<close>

lemma fetch_result_shapes:
  obtains (rejected) e where "r = Rejected e"
  | (not_ok) body where "r = Response False body"
  | (unparsed) e where "r = Response True (Inl e)"
  | (parsed) d where "r = Response True (Inr d)"
proof (cases r)
  case (Rejected e)
  then show ?thesis by (rule rejected)
next
  case (Response ok body)
  show ?thesis
  proof (cases ok)
    case False
    with Response show ?thesis by (intro not_ok) simp
  next
    case True
    with Response show ?thesis by (cases body) (auto intro: unparsed parsed)
  qed
qed

lemma load_part_simps:
  "load_part req (Rejected e) assign s = Inl (e, fetch req s)"
  "load_part req (Response False body) assign s = Inr (fetch req s)"
  "load_part req (Response True (Inl e)) assign s = Inl (e, fetch req s)"
  "load_part req (Response True (Inr d)) assign s = Inr (assign d (fetch req s))"
  by (simp_all add: load_part_def)

lemma lacks_simps:
  "lacks field (Rejected e)"
  "lacks field (Response False body)"
  "lacks field (Response True (Inl e))"
  "lacks field (Response True (Inr d)) = (field d = None)"
  by (simp_all add: lacks_def)

lemma defaults_simps: "list_or_empty None = []" "nextId_or_1 None = 1"
  by (simp_all add: list_or_empty_def nextId_or_1_def)

lemma loadData_fresh:
  assumes "fresh s"
  shows "(lacks ld_logs l \<longrightarrow> logs (loadData l d t s) = []) \<and>
         (lacks ld_nextId l \<longrightarrow> nextLogId (loadData l d t s) = 1) \<and>
         (lacks dd_entries d \<longrightarrow> diaryEntries (loadData l d t s) = []) \<and>
         (lacks dd_nextId d \<longrightarrow> nextDiaryId (loadData l d t s) = 1) \<and>
         (lacks td_tasks t \<longrightarrow> tasks (loadData l d t s) = []) \<and>
         (lacks td_nextId t \<longrightarrow> nextTaskId (loadData l d t s) = 1)"
proof -
  have s: "logs s = []" "diaryEntries s = []" "tasks s = []"
    "nextLogId s = 1" "nextDiaryId s = 1" "nextTaskId s = 1"
    using assms by (simp_all add: fresh_def collections_def)
  show ?thesis
    by (cases l rule: fetch_result_shapes; cases d rule: fetch_result_shapes;
        cases t rule: fetch_result_shapes)
       (simp_all add: loadData_def load_part_simps lacks_simps defaults_simps s
          showToast_def fetch_def)
qed

lemma loadData_all_ok:
  "loadData (Response True (Inr ld)) (Response True (Inr dd)) (Response True (Inr td)) s =
     s\<lparr>logs := list_or_empty (ld_logs ld), nextLogId := nextId_or_1 (ld_nextId ld),
       diaryEntries := list_or_empty (dd_entries dd), nextDiaryId := nextId_or_1 (dd_nextId dd),
       tasks := list_or_empty (td_tasks td), nextTaskId := nextId_or_1 (td_nextId td),
       requests := requests s @ [GetLogs, GetDiary, GetTasks]\<rparr>"
  by (simp add: loadData_def load_part_simps fetch_def)

lemma requests_loadData: "\<exists>rest. requests (loadData l d t s) = requests s @ rest"
  by (cases l rule: fetch_result_shapes; cases d rule: fetch_result_shapes;
      cases t rule: fetch_result_shapes)
     (simp_all add: loadData_def load_part_simps showToast_def fetch_def)

lemma requests_displayDiaryEntry: "requests (displayDiaryEntry e s) = requests s"
  by (simp add: displayDiaryEntry_def split: option.splits)

text \<open>However its \<^verbatim>\<open>try\<close> block ends, \<^verbatim>\<open>generateDiary\<close> has sent the POST first.\<close>

lemma requests_generateDiary_try:
  "\<exists>rest. requests (case generateDiary_try isRegenerate isIncremental today replies s of
                       Inl (e, t) \<Rightarrow> t | Inr t \<Rightarrow> t) =
          requests s @ PostGenerateDiary today # rest"
proof (cases "generateReply replies" rule: fetch_result_shapes)
  case (parsed result)
  obtain rest where r: "requests (loadData (logsReply replies) (diaryReply replies)
      (tasksReply replies) (fetch (PostGenerateDiary today) s)) =
      requests (fetch (PostGenerateDiary today) s) @ rest"
    using requests_loadData by blast
  show ?thesis
    using parsed r
    by (simp add: generateDiary_try_def Let_def showToast_def requests_displayDiaryEntry
        fetch_def split: option.splits)
qed (auto simp: generateDiary_try_def Let_def fetch_def split: sum.splits)

lemma fresh_before_load: "fresh (checkApiConnection statusResponse (constructor pg))"
  by (simp add: fresh_def collections_def checkApiConnection_def constructor_def fetch_def
      Let_def split: fetch_result.splits)

section \<open>Properties\<close>

text \<open>
  C1. Neither \<^verbatim>\<open>editLog\<close> nor \<^verbatim>\<open>deleteLog\<close> nor the hook \<^verbatim>\<open>handleLogChange\<close> changes
  the diary entries: the list, and so every entry's content, logIds, createdAt and
  lastUpdated, is as it was. All the hook does is to show the update button when a
  diary entry exists for today.
\<close>

theorem log_changes_leave_diary:
  "diaryEntries (editLog logId answer today s) = diaryEntries s \<and>
   diaryEntries (deleteLog logId confirmed response today s) = diaryEntries s \<and>
   diaryEntries (handleLogChange today s) = diaryEntries s \<and>
   handleLogChange today s =
     s\<lparr>doc := (doc s)\<lparr>updateDiaryBtnHidden :=
          (if find_js (\<lambda>entry. diary_date entry = today) (diaryEntries s) = None
           then updateDiaryBtnHidden (doc s)
           else map_option (\<lambda>hidden. False) (updateDiaryBtnHidden (doc s)))\<rparr>\<rparr>"
  using diaryEntries_editLog diaryEntries_deleteLog diaryEntries_handleLogChange
    handleLogChange_eq by blast

theorem log_changes_leave_diary_witness:
  "diaryEntries (editLog 1 (Some '' Call the dentist today '') ''2025-10-01'' sample_app) =
     [sample_diary] \<and>
   diaryEntries (deleteLog 1 True (Response True (Inr ())) ''2025-10-01'' sample_app) =
     [sample_diary] \<and>
   diaryEntries (handleLogChange ''2025-10-01'' sample_app) = [sample_diary] \<and>
   updateDiaryBtnHidden (doc (handleLogChange ''2025-10-01'' sample_app)) = Some False"
proof -
  have d: "diaryEntries sample_app = [sample_diary]"
    by (simp add: sample_app_def)
  have b: "updateDiaryBtnHidden (doc (handleLogChange ''2025-10-01'' sample_app)) = Some False"
    by (simp add: handleLogChange_def sample_app_def sample_diary_def sample_page_def)
  show ?thesis
    using log_changes_leave_diary [of 1 "Some '' Call the dentist today ''" "''2025-10-01''"
        sample_app True "Response True (Inr ())"] d b
    by simp
qed

text \<open>
  C2, as amended. When the client holds no log at all, whatever the date,
  \<^verbatim>\<open>generateDiary\<close> sends no request, reports that logs must be added first, and leaves
  the collections, the counters and the rest of the state as they were. The guard is on
  the whole collection and not on the logs of the date: when a log of any date is
  held, \<^verbatim>\<open>generateDiary\<close> sends the request if the backend is connected, and if it is
  not, it sends none and reports that the backend is not available.
\<close>

theorem generateDiary_no_logs:
  "(logs s = [] \<longrightarrow>
      generateDiary isRegenerate isIncremental today replies s =
        s\<lparr>toasts := toasts s @ [(''Add some logs first to generate a diary entry'', ''error'')]\<rparr> \<and>
      requests (generateDiary isRegenerate isIncremental today replies s) = requests s \<and>
      collections (generateDiary isRegenerate isIncremental today replies s) = collections s) \<and>
   (logs s \<noteq> [] \<and> \<not> apiConnected s \<longrightarrow>
      generateDiary isRegenerate isIncremental today replies s =
        s\<lparr>toasts := toasts s @ [(''Backend server not available'', ''error'')]\<rparr>) \<and>
   (logs s \<noteq> [] \<and> apiConnected s \<longrightarrow>
      (\<exists>rest. requests (generateDiary isRegenerate isIncremental today replies s) =
                requests s @ PostGenerateDiary today # rest))"
proof (intro conjI impI)
  assume "logs s = []"
  then show "generateDiary isRegenerate isIncremental today replies s =
        s\<lparr>toasts := toasts s @ [(''Add some logs first to generate a diary entry'', ''error'')]\<rparr>"
    "requests (generateDiary isRegenerate isIncremental today replies s) = requests s"
    "collections (generateDiary isRegenerate isIncremental today replies s) = collections s"
    by (simp_all add: generateDiary_def showToast_def collections_def)
next
  assume "logs s \<noteq> [] \<and> \<not> apiConnected s"
  then show "generateDiary isRegenerate isIncremental today replies s =
        s\<lparr>toasts := toasts s @ [(''Backend server not available'', ''error'')]\<rparr>"
    by (simp add: generateDiary_def showToast_def)
next
  assume a: "logs s \<noteq> [] \<and> apiConnected s"
  obtain rest where "requests (case generateDiary_try isRegenerate isIncremental today replies s of
                       Inl (e, t) \<Rightarrow> t | Inr t \<Rightarrow> t) =
          requests s @ PostGenerateDiary today # rest"
    using requests_generateDiary_try by blast
  with a show "\<exists>rest. requests (generateDiary isRegenerate isIncremental today replies s) =
                requests s @ PostGenerateDiary today # rest"
    by (auto simp: generateDiary_def showToast_def split: sum.splits)
qed

theorem generateDiary_no_logs_witness:
  "logs (constructor sample_page) = [] \<and>
   requests (generateDiary False False ''2025-10-01'' server_down (constructor sample_page)) = [] \<and>
   toasts (generateDiary False False ''2025-10-01'' server_down (constructor sample_page)) =
     [(''Add some logs first to generate a diary entry'', ''error'')] \<and>
   diaryEntries (generateDiary False False ''2025-10-01'' server_down (constructor sample_page)) = [] \<and>
   logs sample_app \<noteq> [] \<and> apiConnected sample_app \<and>
   (\<exists>rest. requests (generateDiary False False ''2025-10-02'' server_down sample_app) =
             requests sample_app @ PostGenerateDiary ''2025-10-02'' # rest) \<and>
   logs (sample_app\<lparr>apiConnected := False\<rparr>) \<noteq> [] \<and>
   \<not> apiConnected (sample_app\<lparr>apiConnected := False\<rparr>) \<and>
   requests (generateDiary False False ''2025-10-02'' server_down
               (sample_app\<lparr>apiConnected := False\<rparr>)) = [] \<and>
   toasts (generateDiary False False ''2025-10-02'' server_down
               (sample_app\<lparr>apiConnected := False\<rparr>)) =
     [(''Backend server not available'', ''error'')]"
proof -
  have e: "logs (constructor sample_page) = []"
    by (simp add: constructor_def)
  have l: "logs sample_app \<noteq> []" and c: "apiConnected sample_app"
    by (simp_all add: sample_app_def)
  have l': "logs (sample_app\<lparr>apiConnected := False\<rparr>) \<noteq> []"
    and c': "\<not> apiConnected (sample_app\<lparr>apiConnected := False\<rparr>)"
    by (simp_all add: sample_app_def)
  have first: "requests (generateDiary False False ''2025-10-01'' server_down
        (constructor sample_page)) = [] \<and>
      toasts (generateDiary False False ''2025-10-01'' server_down (constructor sample_page)) =
        [(''Add some logs first to generate a diary entry'', ''error'')] \<and>
      diaryEntries (generateDiary False False ''2025-10-01'' server_down
        (constructor sample_page)) = []"
    using generateDiary_no_logs [where s = "constructor sample_page" and isRegenerate = False
        and isIncremental = False and today = "''2025-10-01''" and replies = server_down] e
    by (simp add: constructor_def collections_def)
  have sent: "\<exists>rest. requests (generateDiary False False ''2025-10-02'' server_down sample_app) =
      requests sample_app @ PostGenerateDiary ''2025-10-02'' # rest"
    using generateDiary_no_logs [where s = sample_app and isRegenerate = False
        and isIncremental = False and today = "''2025-10-02''" and replies = server_down] l c
    by blast
  have off: "requests (generateDiary False False ''2025-10-02'' server_down
               (sample_app\<lparr>apiConnected := False\<rparr>)) = [] \<and>
      toasts (generateDiary False False ''2025-10-02'' server_down
               (sample_app\<lparr>apiConnected := False\<rparr>)) =
        [(''Backend server not available'', ''error'')]"
    using generateDiary_no_logs [where s = "sample_app\<lparr>apiConnected := False\<rparr>"
        and isRegenerate = False and isIncremental = False and today = "''2025-10-02''"
        and replies = server_down] l' c'
    by (simp add: sample_app_def)
  show ?thesis
    using e l c l' c' first sent off by blast
qed

text \<open>
  Against C2 as first stated, for any date with no logs: the logs held are both of
  1 October 2025 and the diary is asked for 2 October, a date with no logs; the request
  is sent all the same, and what is reported is the failure of the request.
\<close>

theorem generateDiary_other_date_counterexample:
  "logs_for_date ''2025-10-02'' sample_app = [] \<and>
   requests (generateDiary False False ''2025-10-02'' server_down sample_app) =
     [PostGenerateDiary ''2025-10-02''] \<and>
   toasts (generateDiary False False ''2025-10-02'' server_down sample_app) =
     [(''Failed to generate diary entry: Failed to fetch'', ''error'')]"
  by (simp add: logs_for_date_def timestamp_date_def substring_def sample_app_def sample_log_def
      second_log_def generateDiary_def generateDiary_try_def server_down_def fetch_def
      showToast_def)

text \<open>
  C3. When the text of the log input is empty once trimmed, \<^verbatim>\<open>addLog\<close> reports the
  error and does nothing else: no log is added, the counter keeps its value, no request
  is sent, and the state is the old one but for the message.
\<close>

theorem addLog_empty_content:
  assumes "logInput (doc s) = Some v" and "trim v = []"
  shows "addLog response today diaryReplies taskReplies s =
           s\<lparr>toasts := toasts s @ [(''Please enter some content for your log'', ''error'')]\<rparr> \<and>
         logs (addLog response today diaryReplies taskReplies s) = logs s \<and>
         nextLogId (addLog response today diaryReplies taskReplies s) = nextLogId s \<and>
         requests (addLog response today diaryReplies taskReplies s) = requests s"
  using assms by (simp add: addLog_def showToast_def)

theorem addLog_empty_content_witness:
  "logInput (doc sample_app) = Some ''   '' \<and> trim ''   '' = [] \<and>
   logs (addLog (Response True (Inr \<lparr>lr_log = sample_log\<rparr>)) ''2025-10-01''
           server_down server_down sample_app) = [sample_log, second_log] \<and>
   nextLogId (addLog (Response True (Inr \<lparr>lr_log = sample_log\<rparr>)) ''2025-10-01''
           server_down server_down sample_app) = 3 \<and>
   requests (addLog (Response True (Inr \<lparr>lr_log = sample_log\<rparr>)) ''2025-10-01''
           server_down server_down sample_app) = [] \<and>
   toasts (addLog (Response True (Inr \<lparr>lr_log = sample_log\<rparr>)) ''2025-10-01''
           server_down server_down sample_app) =
     [(''Please enter some content for your log'', ''error'')]"
proof -
  have i: "logInput (doc sample_app) = Some ''   ''"
    by (simp add: sample_app_def sample_page_def)
  have t: "trim ''   '' = []"
    by (simp add: trim_def is_space_def)
  show ?thesis
    using addLog_empty_content [OF i t, of "Response True (Inr \<lparr>lr_log = sample_log\<rparr>)"
        "''2025-10-01''" server_down server_down] i t
    by (simp add: sample_app_def)
qed

text \<open>
  C4. When the oracle is invoked and the \<^verbatim>\<open>try\<close> block of \<^verbatim>\<open>generateDiary\<close> or of
  \<^verbatim>\<open>extractTasks\<close> throws, nothing is committed: the logs, the diary entries, the tasks
  and the three counters are as before the call, and the error is reported. The block
  throws exactly when the invocation fails.
\<close>

theorem oracle_failure_commits_nothing:
  "((\<exists>e t. generateDiary_try isRegenerate isIncremental today replies s = Inl (e, t)) =
      oracle_failed (generateReply replies)) \<and>
   ((\<exists>e t. extractTasks_try onlyNew today replies s = Inl (e, t)) =
      oracle_failed (generateReply replies)) \<and>
   (\<forall>e t. logs s \<noteq> [] \<and> apiConnected s \<and>
          generateDiary_try isRegenerate isIncremental today replies s = Inl (e, t) \<longrightarrow>
       collections (generateDiary isRegenerate isIncremental today replies s) = collections s \<and>
       toasts (generateDiary isRegenerate isIncremental today replies s) =
         toasts s @ [(''Failed to generate diary entry: '' @ e, ''error'')]) \<and>
   (\<forall>e t. logs s \<noteq> [] \<and> apiConnected s \<and>
          extractTasks_try onlyNew today replies s = Inl (e, t) \<longrightarrow>
       collections (extractTasks onlyNew today replies s) = collections s \<and>
       toasts (extractTasks onlyNew today replies s) =
         toasts s @ [(''Failed to extract tasks: '' @ e, ''error'')])"
proof (intro conjI allI impI)
  show "(\<exists>e t. generateDiary_try isRegenerate isIncremental today replies s = Inl (e, t)) =
      oracle_failed (generateReply replies)"
    by (rule generateDiary_try_throws_iff)
  show "(\<exists>e t. extractTasks_try onlyNew today replies s = Inl (e, t)) =
      oracle_failed (generateReply replies)"
    by (rule extractTasks_try_throws_iff)
next
  fix e t
  assume a: "logs s \<noteq> [] \<and> apiConnected s \<and>
          generateDiary_try isRegenerate isIncremental today replies s = Inl (e, t)"
  then have t: "t = fetch (PostGenerateDiary today) s"
    by (auto dest: generateDiary_try_thrown)
  from a t show "collections (generateDiary isRegenerate isIncremental today replies s) =
      collections s"
    by (simp add: generateDiary_def showToast_def fetch_def collections_def)
  from a t show "toasts (generateDiary isRegenerate isIncremental today replies s) =
         toasts s @ [(''Failed to generate diary entry: '' @ e, ''error'')]"
    by (simp add: generateDiary_def showToast_def fetch_def)
next
  fix e t
  assume a: "logs s \<noteq> [] \<and> apiConnected s \<and>
          extractTasks_try onlyNew today replies s = Inl (e, t)"
  then have t: "t = fetch (PostGenerateTasks today) s"
    by (auto dest: extractTasks_try_thrown)
  from a t show "collections (extractTasks onlyNew today replies s) = collections s"
    by (simp add: extractTasks_def showToast_def fetch_def collections_def)
  from a t show "toasts (extractTasks onlyNew today replies s) =
         toasts s @ [(''Failed to extract tasks: '' @ e, ''error'')]"
    by (simp add: extractTasks_def showToast_def fetch_def)
qed

theorem oracle_failure_commits_nothing_witness:
  "logs sample_app \<noteq> [] \<and> apiConnected sample_app \<and>
   oracle_failed (generateReply server_down) \<and>
   generateDiary_try False True ''2025-10-01'' server_down sample_app =
     Inl (''Failed to fetch'', fetch (PostGenerateDiary ''2025-10-01'') sample_app) \<and>
   extractTasks_try True ''2025-10-01'' server_down sample_app =
     Inl (''Failed to fetch'', fetch (PostGenerateTasks ''2025-10-01'') sample_app) \<and>
   collections (generateDiary False True ''2025-10-01'' server_down sample_app) =
     collections sample_app \<and>
   toasts (generateDiary False True ''2025-10-01'' server_down sample_app) =
     toasts sample_app @ [(''Failed to generate diary entry: '' @ ''Failed to fetch'', ''error'')] \<and>
   collections (extractTasks True ''2025-10-01'' server_down sample_app) =
     collections sample_app \<and>
   toasts (extractTasks True ''2025-10-01'' server_down sample_app) =
     toasts sample_app @ [(''Failed to extract tasks: '' @ ''Failed to fetch'', ''error'')]"
proof -
  have l: "logs sample_app \<noteq> []" and c: "apiConnected sample_app"
    by (simp_all add: sample_app_def)
  have g: "generateDiary_try False True ''2025-10-01'' server_down sample_app =
     Inl (''Failed to fetch'', fetch (PostGenerateDiary ''2025-10-01'') sample_app)"
    by (simp add: generateDiary_try_def server_down_def)
  have x: "extractTasks_try True ''2025-10-01'' server_down sample_app =
     Inl (''Failed to fetch'', fetch (PostGenerateTasks ''2025-10-01'') sample_app)"
    by (simp add: extractTasks_try_def server_down_def)
  show ?thesis
    using oracle_failure_commits_nothing [where s = sample_app and isRegenerate = False
        and isIncremental = True and today = "''2025-10-01''" and replies = server_down
        and onlyNew = True]
      l c g x
    by blast
qed

text \<open>
  C5. Whatever the filter, what \<^verbatim>\<open>renderTasks\<close> shows is the selected tasks, reordered
  so that every incomplete task comes before every completed one and, among the tasks
  of the same completion, High comes before Medium and Medium before Low. The tasks are
  those of the data model: their priority is High, Medium or Low. The order is
  \<open>rendered_before\<close>, which names the priorities and owes nothing to the numbers of
  \<^verbatim>\<open>priorityOrder\<close>.
\<close>

theorem renderTasks_order:
  assumes "tasksList (doc s) = Some shown"
    and "list_all known_priority (tasks s)"
  shows "\<exists>r. tasksList (doc (renderTasks filter' s)) = Some r \<and>
             mset r = mset (selected_tasks filter' (tasks s)) \<and>
             sorted_wrt rendered_before r"
proof (cases "selected_tasks filter' (tasks s) = []")
  case True
  with assms(1) show ?thesis
    by (simp add: renderTasks_def selected_tasks_def)
next
  case False
  have known: "\<forall>t \<in> set (tasks s). known_priority t"
    using assms(2) by (simp add: list_all_iff)
  have "sorted_wrt rendered_before (sort_js tasks_compare (selected_tasks filter' (tasks s)))"
    using selected_known [OF known] by (rule sort_js_tasks_rendered)
  with False assms(1) show ?thesis
    by (auto simp: renderTasks_def selected_tasks_def Let_def mset_sort_js)
qed

theorem renderTasks_order_witness:
  "tasksList (doc sample_app) = Some [] \<and>
   list_all known_priority (tasks sample_app) \<and>
   (\<exists>r. tasksList (doc (renderTasks ''all'' sample_app)) = Some r \<and>
        mset r = mset (selected_tasks ''all'' (tasks sample_app)) \<and>
        sorted_wrt rendered_before r) \<and>
   map_option (map (\<lambda>t. (task_id t, task_completed t, task_priority t)))
       (tasksList (doc (renderTasks ''all'' sample_app))) =
     Some [(3, False, ''High''), (2, False, ''Medium''), (4, False, ''Low''),
           (5, True, ''High''), (1, True, ''Low'')]"
proof -
  have shown: "tasksList (doc sample_app) = Some []"
    by (simp add: sample_app_def sample_page_def)
  have ids: "map_option (map (\<lambda>t. (task_id t, task_completed t, task_priority t)))
       (tasksList (doc (renderTasks ''all'' sample_app))) =
     Some [(3, False, ''High''), (2, False, ''Medium''), (4, False, ''Low''),
           (5, True, ''High''), (1, True, ''Low'')]"
    by code_simp
  show ?thesis
    using renderTasks_order [OF shown sample_tasks_known, of "''all''"] shown sample_tasks_known
      ids
    by blast
qed

text \<open>
  C6. For a clock reading in a year of four digits, \<^verbatim>\<open>generateTimestamp\<close> returns the
  fourteen characters \<^verbatim>\<open>HHMMSSDDMMYYYY\<close>, each field in decimal and padded with zeros.
  Hence for two logs stamped on the same calendar date the comparator of the
  newest-first sort puts the first log before the second exactly when it was stamped
  later in the day, and ties exactly the logs stamped in the same second.
\<close>

theorem generateTimestamp_fixed_width:
  assumes "clock_reading a" and "clock_reading b" and "same_calendar_date a b"
    and "log_timestamp la = generateTimestamp a" and "log_timestamp lb = generateTimestamp b"
  shows "generateTimestamp a =
           two_digits (getHours a) @ two_digits (getMinutes a) @ two_digits (getSeconds a) @
           two_digits (getDate a) @ two_digits (getMonth a + 1) @
           four_digits (nat (getFullYear a)) \<and>
         length (generateTimestamp a) = 14 \<and>
         (logs_compare la lb < 0) = (seconds_of_day b < seconds_of_day a) \<and>
         (logs_compare la lb = 0) = (seconds_of_day b = seconds_of_day a)"
  using generateTimestamp_fields [OF assms(1)] generateTimestamp_length [OF assms(1)]
    timestamps_compare [OF assms(1,2,3)] assms(4,5)
  by (auto simp: logs_compare_def)

theorem generateTimestamp_fixed_width_witness:
  "clock_reading morning \<and> clock_reading afternoon \<and> same_calendar_date morning afternoon \<and>
   log_timestamp sample_log = generateTimestamp morning \<and>
   log_timestamp second_log = generateTimestamp afternoon \<and>
   generateTimestamp morning = ''09050301102025'' \<and>
   length (generateTimestamp morning) = 14 \<and>
   \<not> logs_compare sample_log second_log < 0 \<and>
   logs_compare sample_log second_log \<noteq> 0"
proof -
  have same: "same_calendar_date morning afternoon"
    by (simp add: same_calendar_date_def morning_def afternoon_def)
  have m: "generateTimestamp morning = ''09050301102025''"
    by code_simp
  have a: "generateTimestamp afternoon = ''14300001102025''"
    by code_simp
  have la: "log_timestamp sample_log = generateTimestamp morning"
    by (simp add: m sample_log_def)
  have lb: "log_timestamp second_log = generateTimestamp afternoon"
    by (simp add: a second_log_def)
  have later: "\<not> seconds_of_day afternoon < seconds_of_day morning"
    "seconds_of_day afternoon \<noteq> seconds_of_day morning"
    by (simp_all add: seconds_of_day_def morning_def afternoon_def)
  show ?thesis
    using generateTimestamp_fixed_width [OF clock_reading_morning clock_reading_afternoon same la lb]
      clock_reading_morning clock_reading_afternoon same la lb m later
    by blast
qed

text \<open>
  C7, as amended. Editing an existing log with a text that is not empty once trimmed
  changes the content of that log (the first with the id) and nothing else in the
  collection: the ids and the timestamps are as before, and every other log is
  unchanged. With a text that is empty once trimmed, \<^verbatim>\<open>editLog\<close> changes nothing; it
  reports nothing either.
\<close>

theorem editLog_content_only:
  assumes "find_js (\<lambda>l. log_id l = logId) (logs s) = Some log"
  shows "(trim newContent \<noteq> [] \<longrightarrow>
            first_index (\<lambda>l. log_id l = logId) (logs s) < length (logs s) \<and>
            logs (editLog logId (Some newContent) today s) =
              (logs s)[first_index (\<lambda>l. log_id l = logId) (logs s) :=
                         log\<lparr>log_content := trim newContent\<rparr>] \<and>
            map log_id (logs (editLog logId (Some newContent) today s)) = map log_id (logs s) \<and>
            map log_timestamp (logs (editLog logId (Some newContent) today s)) =
              map log_timestamp (logs s)) \<and>
         (trim newContent = [] \<longrightarrow> editLog logId (Some newContent) today s = s)"
proof (intro conjI impI)
  let ?k = "first_index (\<lambda>l. log_id l = logId) (logs s)"
  note found = update_first_found [OF assms, of "\<lambda>l. l\<lparr>log_content := trim newContent\<rparr>"]
  show "trim newContent = [] \<Longrightarrow> editLog logId (Some newContent) today s = s"
    using assms by (simp add: editLog_def)
  assume ne: "trim newContent \<noteq> []"
  show k: "?k < length (logs s)" using found by simp
  show upd: "logs (editLog logId (Some newContent) today s) =
      (logs s)[?k := log\<lparr>log_content := trim newContent\<rparr>]"
    using assms ne found
    by (simp add: editLog_def Let_def logs_handleLogChange showToast_def logs_renderLogs)
  show "map log_id (logs (editLog logId (Some newContent) today s)) = map log_id (logs s)"
    unfolding upd using found by (intro map_update_same) simp_all
  show "map log_timestamp (logs (editLog logId (Some newContent) today s)) =
      map log_timestamp (logs s)"
    unfolding upd using found by (intro map_update_same) simp_all
qed

theorem editLog_content_only_witness:
  "find_js (\<lambda>l. log_id l = 2) (logs sample_app) = Some second_log \<and>
   trim '' Lunch with Ana '' = ''Lunch with Ana'' \<and>
   logs (editLog 2 (Some '' Lunch with Ana '') ''2025-10-01'' sample_app) =
     [sample_log, second_log\<lparr>log_content := ''Lunch with Ana''\<rparr>] \<and>
   trim ''  '' = [] \<and>
   editLog 2 (Some ''  '') ''2025-10-01'' sample_app = sample_app"
proof -
  have f: "find_js (\<lambda>l. log_id l = 2) (logs sample_app) = Some second_log"
    by (simp add: sample_app_def sample_log_def second_log_def)
  have k: "first_index (\<lambda>l. log_id l = 2) (logs sample_app) = 1"
    by (simp add: sample_app_def sample_log_def second_log_def)
  have t1: "trim '' Lunch with Ana '' = ''Lunch with Ana''"
    by (simp add: trim_def is_space_def)
  have t2: "trim ''  '' = []"
    by (simp add: trim_def is_space_def)
  have l: "logs sample_app = [sample_log, second_log]"
    by (simp add: sample_app_def)
  show ?thesis
    using editLog_content_only [OF f, of "'' Lunch with Ana ''" "''2025-10-01''"]
      editLog_content_only [OF f, of "''  ''" "''2025-10-01''"] f t1 t2
    by (simp add: k l sample_log_def second_log_def)
qed

text \<open>
  Against C7 as first stated, with a validation error for a blank edit: the log is
  kept, and no message at all is shown, so that no validation error reaches the user.
\<close>

theorem editLog_blank_counterexample:
  "find_js (\<lambda>l. log_id l = 2) (logs sample_app) = Some second_log \<and>
   trim ''  '' = [] \<and>
   toasts (editLog 2 (Some ''  '') ''2025-10-01'' sample_app) = []"
  by (simp add: editLog_def trim_def is_space_def sample_app_def sample_log_def second_log_def)

text \<open>
  C8. \<^verbatim>\<open>addManualTask\<close> sends no request. With a description that is empty once
  trimmed it reports the error and changes nothing else. Otherwise it pushes one new
  task, not completed, of the chosen priority, with no source log and with the counter's
  value as its id: the collection then holds the old tasks and the new one, at the end
  where no task list is on the page to be rendered again and, where the tasks are those
  of the data model, in the order in which the rendering sorts the collection. With the
  counter a safe integer it advances by one; with the ids held all below it, the new id
  is the id of no task held, and the ids stay below the counter.
\<close>

theorem addManualTask_adds_one:
  assumes "manualTaskInput (doc s) = Some v" and "manualTaskPriority (doc s) = Some priority"
  shows "requests (addManualTask now s) = requests s \<and>
         (trim v = [] \<longrightarrow>
            addManualTask now s =
              s\<lparr>toasts := toasts s @ [(''Please enter a task description'', ''error'')]\<rparr>) \<and>
         (trim v \<noteq> [] \<longrightarrow>
            (let task = \<lparr>task_id = nextTaskId s, task_description = trim v,
                         task_completed = False, task_priority = priority,
                         task_sourceLogId = None,
                         task_extractedAt = Some (generateTimestamp now),
                         task_createdAt = None, task_date = None\<rparr>
             in mset (tasks (addManualTask now s)) = add_mset task (mset (tasks s)) \<and>
                (tasksList (doc s) = None \<longrightarrow> tasks (addManualTask now s) = tasks s @ [task]) \<and>
                (list_all known_priority (tasks s @ [task]) \<longrightarrow>
                   tasks (addManualTask now s) =
                     (if tasksList (doc s) = None then tasks s @ [task]
                      else sort_js tasks_compare (tasks s @ [task]))) \<and>
                (safe_integer (nextTaskId s) \<longrightarrow>
                   nextTaskId (addManualTask now s) = nextTaskId s + 1) \<and>
                (safe_integer (nextTaskId s) \<and> ids_below_counter s \<longrightarrow>
                   task_id task \<notin> task_id ` set (tasks s) \<and>
                   ids_below_counter (addManualTask now s))))"
proof (intro conjI impI)
  let ?task = "\<lparr>task_id = nextTaskId s, task_description = trim v,
                         task_completed = False, task_priority = priority,
                         task_sourceLogId = None,
                         task_extractedAt = Some (generateTimestamp now),
                         task_createdAt = None, task_date = None\<rparr>"
  show "requests (addManualTask now s) = requests s"
    using assms by (simp add: addManualTask_def Let_def showToast_def requests_renderTasks)
  show "trim v = [] \<Longrightarrow> addManualTask now s =
      s\<lparr>toasts := toasts s @ [(''Please enter a task description'', ''error'')]\<rparr>"
    using assms by (simp add: addManualTask_def showToast_def)
  assume ne: "trim v \<noteq> []"
  have t: "tasks (addManualTask now s) =
      (if tasksList (doc s) = None then tasks s @ [?task]
       else sort_js tasks_compare (tasks s @ [?task]))"
    using assms ne
    by (simp add: addManualTask_def Let_def showToast_def tasks_renderTasks_all)
  have m: "mset (tasks (addManualTask now s)) = add_mset ?task (mset (tasks s))"
    unfolding t by (simp add: mset_sort_js)
  have n: "nextTaskId (addManualTask now s) = js_add (nextTaskId s) 1"
    using assms ne
    by (simp add: addManualTask_def Let_def showToast_def nextTaskId_renderTasks)
  have fresh_id: "task_id ?task \<notin> task_id ` set (tasks s) \<and>
      ids_below_counter (addManualTask now s)"
    if "safe_integer (nextTaskId s) \<and> ids_below_counter s"
  proof -
    have below: "\<forall>u \<in> set (tasks s). task_id u < nextTaskId s"
      using that by (simp add: ids_below_counter_def list_all_iff)
    have "set (tasks (addManualTask now s)) = insert ?task (set (tasks s))"
      using m by (metis set_mset_mset set_mset_add_mset_insert)
    then have "\<forall>u \<in> set (tasks (addManualTask now s)). task_id u < nextTaskId s + 1"
      using below by auto
    then have "ids_below_counter (addManualTask now s)"
      using that by (simp add: ids_below_counter_def list_all_iff n js_add_safe)
    moreover have "task_id ?task \<notin> task_id ` set (tasks s)"
      using below by auto
    ultimately show ?thesis by simp
  qed
  show "let task = ?task
        in mset (tasks (addManualTask now s)) = add_mset task (mset (tasks s)) \<and>
                (tasksList (doc s) = None \<longrightarrow> tasks (addManualTask now s) = tasks s @ [task]) \<and>
                (list_all known_priority (tasks s @ [task]) \<longrightarrow>
                   tasks (addManualTask now s) =
                     (if tasksList (doc s) = None then tasks s @ [task]
                      else sort_js tasks_compare (tasks s @ [task]))) \<and>
                (safe_integer (nextTaskId s) \<longrightarrow>
                   nextTaskId (addManualTask now s) = nextTaskId s + 1) \<and>
                (safe_integer (nextTaskId s) \<and> ids_below_counter s \<longrightarrow>
                   task_id task \<notin> task_id ` set (tasks s) \<and>
                   ids_below_counter (addManualTask now s))"
    unfolding Let_def using m t fresh_id by (simp add: n js_add_safe)
qed

theorem addManualTask_adds_one_witness:
  "manualTaskInput (doc sample_app) = Some '' Buy milk '' \<and>
   manualTaskPriority (doc sample_app) = Some ''High'' \<and>
   trim '' Buy milk '' = ''Buy milk'' \<and>
   safe_integer (nextTaskId sample_app) \<and> ids_below_counter sample_app \<and>
   list_all known_priority
     (tasks sample_app @
      [\<lparr>task_id = 6, task_description = ''Buy milk'', task_completed = False,
        task_priority = ''High'', task_sourceLogId = None,
        task_extractedAt = Some (generateTimestamp morning),
        task_createdAt = None, task_date = None\<rparr>]) \<and>
   requests (addManualTask morning sample_app) = [] \<and>
   nextTaskId (addManualTask morning sample_app) = 7 \<and>
   mset (tasks (addManualTask morning sample_app)) =
     add_mset \<lparr>task_id = 6, task_description = ''Buy milk'', task_completed = False,
               task_priority = ''High'', task_sourceLogId = None,
               task_extractedAt = Some (generateTimestamp morning),
               task_createdAt = None, task_date = None\<rparr> (mset sample_tasks) \<and>
   6 \<notin> task_id ` set (tasks sample_app) \<and>
   ids_below_counter (addManualTask morning sample_app) \<and>
   map task_id (tasks (addManualTask morning sample_app)) = [3, 6, 2, 4, 5, 1]"
proof -
  have i: "manualTaskInput (doc sample_app) = Some '' Buy milk ''"
    and p: "manualTaskPriority (doc sample_app) = Some ''High''"
    by (simp_all add: sample_app_def sample_page_def)
  have t: "trim '' Buy milk '' = ''Buy milk''"
    by (simp add: trim_def is_space_def)
  have s: "tasks sample_app = sample_tasks" "nextTaskId sample_app = 6" "requests sample_app = []"
    "tasksList (doc sample_app) = Some []"
    by (simp_all add: sample_app_def sample_page_def)
  have safe: "safe_integer (nextTaskId sample_app)"
    by (simp add: s safe_integer_def)
  have below: "ids_below_counter sample_app"
    by (simp add: ids_below_counter_def sample_app_def sample_tasks_def sample_task_def)
  have known: "list_all known_priority
     (tasks sample_app @
      [\<lparr>task_id = 6, task_description = ''Buy milk'', task_completed = False,
        task_priority = ''High'', task_sourceLogId = None,
        task_extractedAt = Some (generateTimestamp morning),
        task_createdAt = None, task_date = None\<rparr>])"
    using sample_tasks_known by (simp add: known_priority_def)
  have ids: "map task_id (tasks (addManualTask morning sample_app)) = [3, 6, 2, 4, 5, 1]"
    by code_simp
  have "mset (tasks (addManualTask morning sample_app)) =
     add_mset \<lparr>task_id = 6, task_description = ''Buy milk'', task_completed = False,
               task_priority = ''High'', task_sourceLogId = None,
               task_extractedAt = Some (generateTimestamp morning),
               task_createdAt = None, task_date = None\<rparr> (mset sample_tasks) \<and>
     nextTaskId (addManualTask morning sample_app) = 7 \<and>
     requests (addManualTask morning sample_app) = [] \<and>
     6 \<notin> task_id ` set (tasks sample_app) \<and>
     ids_below_counter (addManualTask morning sample_app)"
    using addManualTask_adds_one [OF i p, of morning] t safe below
    by (simp add: s Let_def)
  then show ?thesis
    using i p t safe below known ids by blast
qed

text \<open>
  C9. On a first run, whatever the server replies, a collection for which the client
  reads no value is the empty list after \<^verbatim>\<open>loadData\<close>, and a counter for which it
  reads none is 1. In any state, when the three replies are read, an absent collection
  is replaced by the empty list and an absent counter by 1.
\<close>

theorem loadData_first_run:
  "(lacks ld_logs l \<longrightarrow> logs (init statusResponse l d t pg) = []) \<and>
   (lacks ld_nextId l \<longrightarrow> nextLogId (init statusResponse l d t pg) = 1) \<and>
   (lacks dd_entries d \<longrightarrow> diaryEntries (init statusResponse l d t pg) = []) \<and>
   (lacks dd_nextId d \<longrightarrow> nextDiaryId (init statusResponse l d t pg) = 1) \<and>
   (lacks td_tasks t \<longrightarrow> tasks (init statusResponse l d t pg) = []) \<and>
   (lacks td_nextId t \<longrightarrow> nextTaskId (init statusResponse l d t pg) = 1) \<and>
   (ld_logs ld = None \<longrightarrow>
      logs (loadData (Response True (Inr ld)) (Response True (Inr dd)) (Response True (Inr td)) s) = []) \<and>
   (ld_nextId ld = None \<longrightarrow>
      nextLogId (loadData (Response True (Inr ld)) (Response True (Inr dd)) (Response True (Inr td)) s) = 1) \<and>
   (dd_entries dd = None \<longrightarrow>
      diaryEntries (loadData (Response True (Inr ld)) (Response True (Inr dd)) (Response True (Inr td)) s) = []) \<and>
   (dd_nextId dd = None \<longrightarrow>
      nextDiaryId (loadData (Response True (Inr ld)) (Response True (Inr dd)) (Response True (Inr td)) s) = 1) \<and>
   (td_tasks td = None \<longrightarrow>
      tasks (loadData (Response True (Inr ld)) (Response True (Inr dd)) (Response True (Inr td)) s) = []) \<and>
   (td_nextId td = None \<longrightarrow>
      nextTaskId (loadData (Response True (Inr ld)) (Response True (Inr dd)) (Response True (Inr td)) s) = 1)"
proof -
  have c: "collections (init statusResponse l d t pg) =
      collections (loadData l d t (checkApiConnection statusResponse (constructor pg)))"
    by (simp add: init_def collections_renderLogs)
  have first: "(lacks ld_logs l \<longrightarrow> logs (init statusResponse l d t pg) = []) \<and>
   (lacks ld_nextId l \<longrightarrow> nextLogId (init statusResponse l d t pg) = 1) \<and>
   (lacks dd_entries d \<longrightarrow> diaryEntries (init statusResponse l d t pg) = []) \<and>
   (lacks dd_nextId d \<longrightarrow> nextDiaryId (init statusResponse l d t pg) = 1) \<and>
   (lacks td_tasks t \<longrightarrow> tasks (init statusResponse l d t pg) = []) \<and>
   (lacks td_nextId t \<longrightarrow> nextTaskId (init statusResponse l d t pg) = 1)"
    using loadData_fresh [OF fresh_before_load [of statusResponse pg], of l d t] c
    by (simp add: collections_def)
  show ?thesis
    using first by (simp add: loadData_all_ok defaults_simps)
qed

theorem loadData_first_run_witness:
  "lacks ld_logs first_run_logs \<and> lacks ld_nextId first_run_logs \<and>
   lacks dd_entries first_run_diary \<and> lacks dd_nextId first_run_diary \<and>
   lacks td_tasks first_run_tasks \<and> lacks td_nextId first_run_tasks \<and>
   collections (init (Response True (Inr ())) first_run_logs first_run_diary first_run_tasks
                  sample_page) = ([], [], [], 1, 1, 1)"
proof -
  have a: "lacks ld_logs first_run_logs" "lacks ld_nextId first_run_logs"
    "lacks dd_entries first_run_diary" "lacks dd_nextId first_run_diary"
    "lacks td_tasks first_run_tasks" "lacks td_nextId first_run_tasks"
    by (simp_all add: lacks_def first_run_logs_def first_run_diary_def first_run_tasks_def)
  show ?thesis
    using loadData_first_run [of first_run_logs "Response True (Inr ())" first_run_diary
        first_run_tasks sample_page] a
    by (simp add: collections_def)
qed

text \<open>
  C10. A timestamp made by \<^verbatim>\<open>generateTimestamp\<close> has fourteen characters, the year
  taking four, and \<^verbatim>\<open>formatTimestamp\<close> accepts twelve only: it answers
  \<^verbatim>\<open>Invalid timestamp\<close> to every one of them.
\<close>

theorem formatTimestamp_rejects_generated:
  assumes "clock_reading now"
  shows "length (generateTimestamp now) = 14 \<and>
         formatTimestamp (generateTimestamp now) = ''Invalid timestamp''"
  using generateTimestamp_length [OF assms] by (simp add: formatTimestamp_def)

theorem formatTimestamp_rejects_generated_witness:
  "clock_reading morning \<and> length (generateTimestamp morning) = 14 \<and>
   formatTimestamp (generateTimestamp morning) = ''Invalid timestamp''"
  using formatTimestamp_rejects_generated [OF clock_reading_morning] clock_reading_morning
  by simp

end
